theory Spec2Isabelle
  imports Main "HOL-Library.Sublist" "HOL-Library.Char_ord" "HOL-Library.List_Lexorder"
    "HOL-Library.Product_Lexorder"
begin

section \<open>Errors\<close>

text \<open>
  Go errors as values. \<open>NotFound\<close> and \<open>AlreadyExists\<close> are the two API status reasons
  the code and the specification distinguish; \<open>ApiError\<close> is any other error a client
  call returns (network, conflict, ...). \<open>Wrapped\<close> is \<^verbatim>\<open>fmt.Errorf("...: %w", err)\<close>.
  The remaining constructors are the sentinel errors and ad-hoc errors of
  \<^verbatim>\<open>workspace_new.go\<close>.
\<close>

datatype error =
    NotFound
  | AlreadyExists
  | ApiError string
  | Wrapped string error
  | errPodTimeout
  | errReconcileTimeout
  | errRestoreTimeout
  | errWorkspaceNameArg
  | ExitError string

text \<open>\<^verbatim>\<open>errors.IsNotFound(err)\<close>: the error is an API status with reason NotFound.\<close>

fun IsNotFound :: "error \<Rightarrow> bool" where
  "IsNotFound NotFound = True"
| "IsNotFound _ = False"

section \<open>The workspace controller (\<^verbatim>\<open>src/unnamed/part_000\<close>)\<close>

subsection \<open>Data model\<close>

text \<open>
  \<^verbatim>\<open>workspace_types.go\<close>: the Workspace resource. Objects are identified by the pair
  (namespace, name), Go's \<^verbatim>\<open>types.NamespacedName\<close>. A nil slice and an empty slice
  are both the empty list.
\<close>

type_synonym NamespacedName = "string \<times> string"

record WorkspaceCacheSpec =
  StorageClass :: string
  Size :: string

record WorkspaceSpec =
  SecretName :: string
  Cache :: WorkspaceCacheSpec

record WorkspaceStatus =
  Queue :: "string list"

record Workspace =
  ws_Name :: string
  ws_Namespace :: string
  Spec :: WorkspaceSpec
  Status :: WorkspaceStatus

text \<open>
  The Command resource is declared outside the given sources. The controller reads its
  object name (\<^verbatim>\<open>cmdList.Items[i].Name\<close>), its namespace (the list is taken per
  namespace) and \<^verbatim>\<open>command.Spec.Workspace\<close>, the workspace the command belongs to
  (used by the watch mapping in \<^verbatim>\<open>add\<close>). \<open>cmd_CreationTimestamp\<close> is the standard
  object-metadata creation time.
\<close>

record Command =
  cmd_Name :: string
  cmd_Namespace :: string
  cmd_Workspace :: string
  cmd_CreationTimestamp :: nat

record PersistentVolumeClaim =
  pvc_Name :: string
  pvc_Namespace :: string
  pvc_Labels :: "(string \<times> string) list"
  pvc_AccessModes :: "string list"
  pvc_Requests :: "(string \<times> string) list"
  pvc_StorageClassName :: "string option"
  pvc_Controller :: "NamespacedName option"

definition ResourceStorage :: string where
  "ResourceStorage = ''storage''"

definition ReadWriteOnce :: string where
  "ReadWriteOnce = ''ReadWriteOnce''"

subsection \<open>\<^verbatim>\<open>newPVCForCR\<close>\<close>

text \<open>
  The claim synthesized for a workspace: named \<^verbatim>\<open>cr.Name + "-pvc"\<close>, in the workspace's
  namespace, labelled \<^verbatim>\<open>app=<name>\<close>, one access mode, and a storage request of the
  constant \<^verbatim>\<open>resource.MustParse("1Gi")\<close>. The function reads nothing of the
  workspace's spec; the storage class is left unset.
\<close>

definition newPVCForCR :: "Workspace \<Rightarrow> PersistentVolumeClaim" where
  "newPVCForCR cr =
     \<lparr> pvc_Name = ws_Name cr @ ''-pvc'',
       pvc_Namespace = ws_Namespace cr,
       pvc_Labels = [(''app'', ws_Name cr)],
       pvc_AccessModes = [ReadWriteOnce],
       pvc_Requests = [(ResourceStorage, ''1Gi'')],
       pvc_StorageClassName = None,
       pvc_Controller = None \<rparr>"

text \<open>
  \<^verbatim>\<open>controllerutil.SetControllerReference(owner, object, scheme)\<close>: fails when the
  owner's kind is not registered in the scheme, otherwise records the owner as the
  object's controller. The scheme is the list of registered kinds.
\<close>

type_synonym Scheme = "string list"

definition SetControllerReference ::
  "Workspace \<Rightarrow> PersistentVolumeClaim \<Rightarrow> Scheme \<Rightarrow> error + PersistentVolumeClaim" where
  "SetControllerReference owner obj sch =
     (if ''Workspace'' \<in> set sch
      then Inr (obj\<lparr>pvc_Controller := Some (ws_Namespace owner, ws_Name owner)\<rparr>)
      else Inl (ApiError ''no kind is registered for the type Workspace''))"

subsection \<open>The client interface\<close>

text \<open>
  \<^verbatim>\<open>client.Client\<close> is an interface; the reconciler uses five of its operations. Each
  is a function of the state \<open>'s\<close> of whatever stands behind the client. Reads return
  an error or the object; writes return an optional error and the new state.
\<close>

record 's Client =
  Get_Workspace :: "NamespacedName \<Rightarrow> 's \<Rightarrow> error + Workspace"
  Get_PVC :: "NamespacedName \<Rightarrow> 's \<Rightarrow> error + PersistentVolumeClaim"
  Create_PVC :: "PersistentVolumeClaim \<Rightarrow> 's \<Rightarrow> error option \<times> 's"
  List_Commands :: "string \<Rightarrow> 's \<Rightarrow> error + Command list"
  Status_Update :: "Workspace \<Rightarrow> 's \<Rightarrow> error option \<times> 's"

record 's ReconcileWorkspace =
  client :: "'s Client"
  scheme :: Scheme

text \<open>The client calls a reconciliation pass issues, in order.\<close>

datatype call =
    CallGetWorkspace NamespacedName
  | CallGetPVC NamespacedName
  | CallCreatePVC NamespacedName
  | CallListCommands string
  | CallStatusUpdate NamespacedName "string list"

text \<open>
  What a pass returns: \<^verbatim>\<open>reconcile.Result\<close> (its \<open>Requeue\<close> flag), the error, and
  for the model the calls issued and the state left behind.
\<close>

record 's outcome =
  Requeue :: bool
  err :: "error option"
  calls :: "call list"
  final :: 's

definition finish :: "error option \<Rightarrow> call list \<Rightarrow> 's \<Rightarrow> 's outcome" where
  "finish e cs s = \<lparr> Requeue = False, err = e, calls = cs, final = s \<rparr>"

subsection \<open>\<^verbatim>\<open>Reconcile\<close>\<close>

text \<open>
  The loop of lines 149-152: start from the empty slice and append each listed
  command's name.
\<close>

fun append_names :: "string list \<Rightarrow> Command list \<Rightarrow> string list" where
  "append_names q [] = q"
| "append_names q (c # cs) = append_names (q @ [cmd_Name c]) cs"

text \<open>
  One pass, branch by branch as in the source: fetch the workspace (not found: stop
  without error); build the claim and set its owner; look the claim up; when it is not
  found create it and return; on any other lookup error return it; otherwise list the
  namespace's commands and, when there is at least one, overwrite the queue with their
  names and update the status, discarding the update's error.
\<close>

definition Reconcile ::
  "'s ReconcileWorkspace \<Rightarrow> NamespacedName \<Rightarrow> 's \<Rightarrow> 's outcome" where
  "Reconcile r request s =
     (case Get_Workspace (client r) request s of
        Inl e \<Rightarrow>
          if IsNotFound e then finish None [CallGetWorkspace request] s
          else finish (Some e) [CallGetWorkspace request] s
      | Inr instance \<Rightarrow>
         (case SetControllerReference instance (newPVCForCR instance) (scheme r) of
            Inl e \<Rightarrow> finish (Some e) [CallGetWorkspace request] s
          | Inr pvc \<Rightarrow>
             (let key = (pvc_Namespace pvc, pvc_Name pvc) in
              case Get_PVC (client r) key s of
                Inl e \<Rightarrow>
                  if IsNotFound e then
                    (case Create_PVC (client r) pvc s of
                       (Some e', s') \<Rightarrow>
                         finish (Some e')
                           [CallGetWorkspace request, CallGetPVC key, CallCreatePVC key] s'
                     | (None, s') \<Rightarrow>
                         finish None
                           [CallGetWorkspace request, CallGetPVC key, CallCreatePVC key] s')
                  else finish (Some e) [CallGetWorkspace request, CallGetPVC key] s
              | Inr found \<Rightarrow>
                 (case List_Commands (client r) (fst request) s of
                    Inl e \<Rightarrow>
                      finish (Some e)
                        [CallGetWorkspace request, CallGetPVC key,
                         CallListCommands (fst request)] s
                  | Inr items \<Rightarrow>
                      if length items > 0 then
                        (let q = append_names [] items;
                             instance' = instance\<lparr>Status := (Status instance)\<lparr>Queue := q\<rparr>\<rparr>;
                             s' = snd (Status_Update (client r) instance' s)
                         in finish None
                              [CallGetWorkspace request, CallGetPVC key,
                               CallListCommands (fst request),
                               CallStatusUpdate (ws_Namespace instance', ws_Name instance') q] s')
                      else
                        finish None
                          [CallGetWorkspace request, CallGetPVC key,
                           CallListCommands (fst request)] s))))"

subsection \<open>An in-memory cluster\<close>

text \<open>
  The object store behind the client when nothing else acts on it: objects by
  (namespace, name), commands as the list the API returns them in. Get fails with
  NotFound for a missing key; Create fails with AlreadyExists for a present one; List
  returns the commands of the namespace; a status update replaces the stored object's
  status and fails with NotFound when the object is gone.
\<close>

record cluster =
  workspaces :: "NamespacedName \<rightharpoonup> Workspace"
  pvcs :: "NamespacedName \<rightharpoonup> PersistentVolumeClaim"
  commands :: "Command list"

definition mem_Get_Workspace :: "NamespacedName \<Rightarrow> cluster \<Rightarrow> error + Workspace" where
  "mem_Get_Workspace k c = (case workspaces c k of None \<Rightarrow> Inl NotFound | Some w \<Rightarrow> Inr w)"

definition mem_Get_PVC :: "NamespacedName \<Rightarrow> cluster \<Rightarrow> error + PersistentVolumeClaim" where
  "mem_Get_PVC k c = (case pvcs c k of None \<Rightarrow> Inl NotFound | Some p \<Rightarrow> Inr p)"

definition mem_Create_PVC :: "PersistentVolumeClaim \<Rightarrow> cluster \<Rightarrow> error option \<times> cluster" where
  "mem_Create_PVC p c =
     (case pvcs c (pvc_Namespace p, pvc_Name p) of
        Some _ \<Rightarrow> (Some AlreadyExists, c)
      | None \<Rightarrow> (None, c\<lparr>pvcs := (pvcs c)((pvc_Namespace p, pvc_Name p) \<mapsto> p)\<rparr>))"

definition mem_List_Commands :: "string \<Rightarrow> cluster \<Rightarrow> error + Command list" where
  "mem_List_Commands ns c = Inr (filter (\<lambda>x. cmd_Namespace x = ns) (commands c))"

definition mem_Status_Update :: "Workspace \<Rightarrow> cluster \<Rightarrow> error option \<times> cluster" where
  "mem_Status_Update w c =
     (case workspaces c (ws_Namespace w, ws_Name w) of
        None \<Rightarrow> (Some NotFound, c)
      | Some old \<Rightarrow>
          (None, c\<lparr>workspaces :=
                     (workspaces c)((ws_Namespace w, ws_Name w) \<mapsto> old\<lparr>Status := Status w\<rparr>)\<rparr>))"

definition mem_client :: "cluster Client" where
  "mem_client =
     \<lparr> Get_Workspace = mem_Get_Workspace,
       Get_PVC = mem_Get_PVC,
       Create_PVC = mem_Create_PVC,
       List_Commands = mem_List_Commands,
       Status_Update = mem_Status_Update \<rparr>"

definition mem_reconciler :: "cluster ReconcileWorkspace" where
  "mem_reconciler = \<lparr> client = mem_client, scheme = [''Workspace'', ''Command''] \<rparr>"

text \<open>
  The same store with another actor: \<open>act\<close> is what the other actor does to the
  cluster after the reconciler's reads and before its create call reaches the server.
\<close>

definition racing_client :: "(cluster \<Rightarrow> cluster) \<Rightarrow> cluster Client" where
  "racing_client act = mem_client\<lparr>Create_PVC := (\<lambda>p c. mem_Create_PVC p (act c))\<rparr>"

subsection \<open>What the reconciler needs of a client\<close>

text \<open>
  The reconciler's only memory between two passes is what its client reads back. Three
  properties of a client say that its reads are up to date with its own writes. First:
  a claim whose create succeeded is found by the next lookup of its key, and the
  create changes no workspace lookup and no command list.
\<close>

definition create_is_read :: "'s Client \<Rightarrow> bool" where
  "create_is_read cl =
     (\<forall>p s s'. Create_PVC cl p s = (None, s') \<longrightarrow>
        (\<exists>f. Get_PVC cl (pvc_Namespace p, pvc_Name p) s' = Inr f)
        \<and> (\<forall>k. Get_Workspace cl k s' = Get_Workspace cl k s)
        \<and> (\<forall>ns. List_Commands cl ns s' = List_Commands cl ns s))"

text \<open>
  Second: a status update changes no claim lookup and no command list, and a
  workspace that was found is still found, under the same name and namespace.
\<close>

definition status_update_keeps_reads :: "'s Client \<Rightarrow> bool" where
  "status_update_keeps_reads cl =
     (\<forall>w s.
        (\<forall>k. Get_PVC cl k (snd (Status_Update cl w s)) = Get_PVC cl k s)
        \<and> (\<forall>ns. List_Commands cl ns (snd (Status_Update cl w s)) = List_Commands cl ns s)
        \<and> (\<forall>k v. Get_Workspace cl k s = Inr v \<longrightarrow>
              (\<exists>v'. Get_Workspace cl k (snd (Status_Update cl w s)) = Inr v'
                    \<and> ws_Name v' = ws_Name v \<and> ws_Namespace v' = ws_Namespace v)))"

text \<open>Third: writing the same status to the same workspace twice is writing it once.\<close>

definition status_update_idempotent :: "'s Client \<Rightarrow> bool" where
  "status_update_idempotent cl =
     (\<forall>w w' s. ws_Name w' = ws_Name w \<and> ws_Namespace w' = ws_Namespace w
                 \<and> Status w' = Status w \<longrightarrow>
        snd (Status_Update cl w' (snd (Status_Update cl w s))) = snd (Status_Update cl w s))"

text \<open>
  Two clients that lack them, over the same store: one whose create call is refused,
  and one whose claim lookups come from a cache that has not caught up with the
  store (the source's client reads from a cache and writes to the API server).
\<close>

definition refusing_client :: "cluster Client" where
  "refusing_client =
     mem_client\<lparr>Create_PVC := (\<lambda>p c. (Some (ApiError ''forbidden''), c))\<rparr>"

definition stale_client :: "cluster Client" where
  "stale_client = mem_client\<lparr>Get_PVC := (\<lambda>k c. Inl NotFound)\<rparr>"

definition refusing_reconciler :: "cluster ReconcileWorkspace" where
  "refusing_reconciler = \<lparr> client = refusing_client, scheme = [''Workspace'', ''Command''] \<rparr>"

definition stale_reconciler :: "cluster ReconcileWorkspace" where
  "stale_reconciler = \<lparr> client = stale_client, scheme = [''Workspace'', ''Command''] \<rparr>"

subsection \<open>Concrete clusters\<close>

definition workspace_1 :: "string list \<Rightarrow> Workspace" where
  "workspace_1 q =
     \<lparr> ws_Name = ''workspace-1'', ws_Namespace = ''default'',
       Spec = \<lparr> SecretName = [], Cache = \<lparr> StorageClass = [], Size = [] \<rparr> \<rparr>,
       Status = \<lparr> Queue = q \<rparr> \<rparr>"

definition plan :: "string \<Rightarrow> string \<Rightarrow> nat \<Rightarrow> Command" where
  "plan n w t =
     \<lparr> cmd_Name = n, cmd_Namespace = ''default'', cmd_Workspace = w,
       cmd_CreationTimestamp = t \<rparr>"

text \<open>A cluster holding one workspace and some commands, before its claim exists.\<close>

definition fresh_cluster :: "Workspace \<Rightarrow> Command list \<Rightarrow> cluster" where
  "fresh_cluster w cs =
     \<lparr> workspaces = [(ws_Namespace w, ws_Name w) \<mapsto> w], pvcs = Map.empty, commands = cs \<rparr>"

text \<open>The same once the claim exists.\<close>

definition settled_cluster :: "Workspace \<Rightarrow> Command list \<Rightarrow> cluster" where
  "settled_cluster w cs =
     \<lparr> workspaces = [(ws_Namespace w, ws_Name w) \<mapsto> w],
       pvcs = [(ws_Namespace w, ws_Name w @ ''-pvc'') \<mapsto> newPVCForCR w],
       commands = cs \<rparr>"

text \<open>Another actor that creates the workspace's claim itself.\<close>

definition other_creates_pvc :: "Workspace \<Rightarrow> cluster \<Rightarrow> cluster" where
  "other_creates_pvc w c =
     c\<lparr>pvcs := (pvcs c)((ws_Namespace w, ws_Name w @ ''-pvc'') \<mapsto> newPVCForCR w)\<rparr>"

definition racing_reconciler :: "Workspace \<Rightarrow> cluster ReconcileWorkspace" where
  "racing_reconciler w =
     \<lparr> client = racing_client (other_creates_pvc w), scheme = [''Workspace'', ''Command''] \<rparr>"

text \<open>The queue stored for a workspace, when the workspace is stored.\<close>

definition stored_queue :: "cluster \<Rightarrow> NamespacedName \<Rightarrow> string list option" where
  "stored_queue c k = map_option (\<lambda>w. Queue (Status w)) (workspaces c k)"

text \<open>Whether a call creates a resource, lists commands, or writes the status.\<close>

fun is_create :: "call \<Rightarrow> bool" where
  "is_create (CallCreatePVC _) = True"
| "is_create _ = False"

fun is_list :: "call \<Rightarrow> bool" where
  "is_list (CallListCommands _) = True"
| "is_list _ = False"

fun is_status_update :: "call \<Rightarrow> bool" where
  "is_status_update (CallStatusUpdate _ _) = True"
| "is_status_update _ = False"

subsection \<open>The queue builder as the specification words it\<close>

text \<open>
  Section 4.2 of the specification, for comparison with the code: of the observed
  commands keep, in their previous order, the names already in the previous queue;
  then append the names not yet there, ordered by creation timestamp and, between
  equal timestamps, by name.
\<close>

definition spec_QueueBuilder :: "string list \<Rightarrow> Command list \<Rightarrow> string list" where
  "spec_QueueBuilder prev cs =
     filter (\<lambda>n. n \<in> set (map cmd_Name cs)) prev
     @ map cmd_Name
         (sort_key (\<lambda>c. (cmd_CreationTimestamp c, cmd_Name c))
            (filter (\<lambda>c. cmd_Name c \<notin> set prev) cs))"

section \<open>The workspace-creation command (\<^verbatim>\<open>src/cmd/workspace/workspace_new.go\<close>)\<close>

subsection \<open>Options and flags\<close>

text \<open>
  The workspace spec the client submits. Its type is declared outside the given
  sources; the fields are those \<^verbatim>\<open>newCmd\<close> binds to flags. The storage class is a
  pointer to a string: \<open>None\<close> is nil. Variables, privileged commands and verbosity
  play no part in what follows and are left out.
\<close>

record EtokCacheSpec =
  cache_Size :: string
  cache_StorageClass :: "string option"

record EtokWorkspaceSpec =
  spec_ServiceAccountName :: string
  spec_SecretName :: string
  spec_Cache :: EtokCacheSpec
  spec_TerraformVersion :: string
  spec_BackupBucket :: string

record newOptions =
  o_namespace :: string
  o_workspace :: string
  o_workspaceSpec :: EtokWorkspaceSpec
  o_disableCreateServiceAccount :: bool
  o_disableCreateSecret :: bool
  o_disableResourceCleanup :: bool
  o_createdWorkspace :: bool
  o_createdServiceAccount :: bool
  o_createdSecret :: bool

definition defaultCacheSize :: string where
  "defaultCacheSize = ''1Gi''"

definition defaultSecretName :: string where
  "defaultSecretName = ''etok''"

definition defaultServiceAccountName :: string where
  "defaultServiceAccountName = ''etok''"

text \<open>
  One invocation of the command: the positional arguments; the string flags of
  \<^verbatim>\<open>newCmd\<close> that were passed on the command line, by flag name; and the values of the
  boolean flags and of the flags registered by helpers outside the given sources
  (namespace, cleanup switch), as bound.
\<close>

record invocation =
  inv_args :: "string list"
  inv_flags :: "string \<rightharpoonup> string"
  inv_namespace :: string
  inv_disableCreateServiceAccount :: bool
  inv_disableCreateSecret :: bool
  inv_disableResourceCleanup :: bool

text \<open>\<^verbatim>\<open>flags.IsFlagPassed\<close>: the flag was set on the command line.\<close>

definition IsFlagPassed :: "(string \<rightharpoonup> string) \<Rightarrow> string \<Rightarrow> bool" where
  "IsFlagPassed fl name = (fl name \<noteq> None)"

text \<open>A string flag's variable: the value passed, or the registered default.\<close>

definition flag_String :: "(string \<rightharpoonup> string) \<Rightarrow> string \<Rightarrow> string \<Rightarrow> string" where
  "flag_String fl name dflt = (case fl name of None \<Rightarrow> dflt | Some v \<Rightarrow> v)"

text \<open>
  The options as flag parsing leaves them when \<^verbatim>\<open>RunE\<close> starts. The storage class
  points at the variable of the \<^verbatim>\<open>storage-class\<close> flag, whose default is the empty
  string (line 155).
\<close>

definition bind_flags :: "invocation \<Rightarrow> newOptions" where
  "bind_flags iv =
     \<lparr> o_namespace = inv_namespace iv,
       o_workspace = [],
       o_workspaceSpec =
         \<lparr> spec_ServiceAccountName =
             flag_String (inv_flags iv) ''service-account'' defaultServiceAccountName,
           spec_SecretName = flag_String (inv_flags iv) ''secret'' defaultSecretName,
           spec_Cache =
             \<lparr> cache_Size = flag_String (inv_flags iv) ''size'' defaultCacheSize,
               cache_StorageClass = Some (flag_String (inv_flags iv) ''storage-class'' []) \<rparr>,
           spec_TerraformVersion = flag_String (inv_flags iv) ''terraform-version'' [],
           spec_BackupBucket = flag_String (inv_flags iv) ''backup-bucket'' [] \<rparr>,
       o_disableCreateServiceAccount = inv_disableCreateServiceAccount iv,
       o_disableCreateSecret = inv_disableCreateSecret iv,
       o_disableResourceCleanup = inv_disableResourceCleanup iv,
       o_createdWorkspace = False,
       o_createdServiceAccount = False,
       o_createdSecret = False \<rparr>"

text \<open>Lines 118-122: without the flag the storage class is nil, not the empty string.\<close>

definition default_storage_class :: "invocation \<Rightarrow> newOptions \<Rightarrow> newOptions" where
  "default_storage_class iv opts =
     (if \<not> IsFlagPassed (inv_flags iv) ''storage-class''
      then opts\<lparr>o_workspaceSpec :=
               (o_workspaceSpec opts)\<lparr>spec_Cache :=
                 (spec_Cache (o_workspaceSpec opts))\<lparr>cache_StorageClass := None\<rparr>\<rparr>\<rparr>
      else opts)"

subsection \<open>The cluster API as the client sees it\<close>

text \<open>
  The calls the command issues through its typed clients, each with namespace and
  name; creating the workspace carries the spec submitted. Every call is issued at
  most once in an invocation, so the cluster's behaviour is a function from the call
  to its error (\<open>None\<close>: the call succeeded).
\<close>

datatype api_call =
    GetServiceAccount string string
  | CreateServiceAccount string string
  | GetSecret string string
  | CreateSecret string string
  | CreateWorkspace string string EtokWorkspaceSpec
  | DeleteWorkspace string string
  | DeleteSecret string string
  | DeleteServiceAccount string string

type_synonym api = "api_call \<Rightarrow> error option"

type_synonym trace = "(api_call \<times> error option) list"

text \<open>
  What lies outside the command's own code: \<^verbatim>\<open>env.New\<close>, the client factory, the
  cluster, and everything \<^verbatim>\<open>run\<close> does once the workspace is created (the three
  waiters, log streaming, writing the environment file, the exit code), of which only
  the resulting error matters here.
\<close>

record world =
  env_New :: "error option"
  factory_Create :: "error option"
  cluster_api :: api
  wait_and_stream :: "error option"

subsection \<open>\<^verbatim>\<open>createServiceAccountIfMissing\<close>, \<^verbatim>\<open>createSecretIfMissing\<close>, \<^verbatim>\<open>createWorkspace\<close>\<close>

definition createServiceAccountIfMissing ::
  "api \<Rightarrow> newOptions \<Rightarrow> error option \<times> newOptions \<times> trace" where
  "createServiceAccountIfMissing a opts =
     (let name = spec_ServiceAccountName (o_workspaceSpec opts);
          get = GetServiceAccount (o_namespace opts) name;
          create = CreateServiceAccount (o_namespace opts) name
      in case a get of
           None \<Rightarrow> (None, opts, [(get, None)])
         | Some e \<Rightarrow>
             if IsNotFound e then
               (case a create of
                  Some e' \<Rightarrow>
                    (Some (Wrapped ''attempted to create service account'' e'), opts,
                     [(get, Some e), (create, Some e')])
                | None \<Rightarrow>
                    (None, opts\<lparr>o_createdServiceAccount := True\<rparr>,
                     [(get, Some e), (create, None)]))
             else (Some (Wrapped ''attempted to retrieve service account'' e), opts,
                   [(get, Some e)]))"

definition createSecretIfMissing ::
  "api \<Rightarrow> newOptions \<Rightarrow> error option \<times> newOptions \<times> trace" where
  "createSecretIfMissing a opts =
     (let name = spec_SecretName (o_workspaceSpec opts);
          get = GetSecret (o_namespace opts) name;
          create = CreateSecret (o_namespace opts) name
      in case a get of
           None \<Rightarrow> (None, opts, [(get, None)])
         | Some e \<Rightarrow>
             if IsNotFound e then
               (case a create of
                  Some e' \<Rightarrow>
                    (Some (Wrapped ''attempted to create secret'' e'), opts,
                     [(get, Some e), (create, Some e')])
                | None \<Rightarrow>
                    (None, opts\<lparr>o_createdSecret := True\<rparr>,
                     [(get, Some e), (create, None)]))
             else (Some (Wrapped ''attempted to retrieve secret'' e), opts, [(get, Some e)]))"

definition createWorkspace :: "api \<Rightarrow> newOptions \<Rightarrow> error option \<times> trace" where
  "createWorkspace a opts =
     (let create = CreateWorkspace (o_namespace opts) (o_workspace opts) (o_workspaceSpec opts)
      in (a create, [(create, a create)]))"

subsection \<open>\<^verbatim>\<open>run\<close> and \<^verbatim>\<open>cleanup\<close>\<close>

definition run :: "world \<Rightarrow> newOptions \<Rightarrow> error option \<times> newOptions \<times> trace" where
  "run w opts =
     (case (if \<not> o_disableCreateServiceAccount opts
            then createServiceAccountIfMissing (cluster_api w) opts else (None, opts, [])) of
        (Some e, o1, t1) \<Rightarrow> (Some e, o1, t1)
      | (None, o1, t1) \<Rightarrow>
         (case (if \<not> o_disableCreateSecret o1
                then createSecretIfMissing (cluster_api w) o1 else (None, o1, [])) of
            (Some e, o2, t2) \<Rightarrow> (Some e, o2, t1 @ t2)
          | (None, o2, t2) \<Rightarrow>
             (case createWorkspace (cluster_api w) o2 of
                (Some e, t3) \<Rightarrow> (Some e, o2, t1 @ t2 @ t3)
              | (None, t3) \<Rightarrow>
                  (wait_and_stream w, o2\<lparr>o_createdWorkspace := True\<rparr>, t1 @ t2 @ t3))))"

text \<open>The three deletes of \<^verbatim>\<open>cleanup\<close>; their results are dropped.\<close>

definition cleanup :: "api \<Rightarrow> newOptions \<Rightarrow> trace" where
  "cleanup a opts =
     (if o_createdWorkspace opts
      then [(DeleteWorkspace (o_namespace opts) (o_workspace opts),
             a (DeleteWorkspace (o_namespace opts) (o_workspace opts)))] else [])
     @ (if o_createdSecret opts
        then [(DeleteSecret (o_namespace opts) (spec_SecretName (o_workspaceSpec opts)),
               a (DeleteSecret (o_namespace opts) (spec_SecretName (o_workspaceSpec opts))))]
        else [])
     @ (if o_createdServiceAccount opts
        then [(DeleteServiceAccount (o_namespace opts) (spec_ServiceAccountName (o_workspaceSpec opts)),
               a (DeleteServiceAccount (o_namespace opts)
                    (spec_ServiceAccountName (o_workspaceSpec opts))))]
        else [])"

subsection \<open>\<^verbatim>\<open>RunE\<close>\<close>

record new_outcome =
  res_err :: "error option"
  res_calls :: trace

definition RunE :: "world \<Rightarrow> invocation \<Rightarrow> new_outcome" where
  "RunE w iv =
     (case inv_args iv of
        [arg] \<Rightarrow>
          (let opts = (bind_flags iv)\<lparr>o_workspace := arg\<rparr> in
           case env_New w of
             Some e \<Rightarrow> \<lparr> res_err = Some e, res_calls = [] \<rparr>
           | None \<Rightarrow>
              (let opts = default_storage_class iv opts in
               case factory_Create w of
                 Some e \<Rightarrow> \<lparr> res_err = Some e, res_calls = [] \<rparr>
               | None \<Rightarrow>
                  (case run w opts of
                     (Some e, opts', t) \<Rightarrow>
                       if \<not> o_disableResourceCleanup opts'
                       then \<lparr> res_err = Some e, res_calls = t @ cleanup (cluster_api w) opts' \<rparr>
                       else \<lparr> res_err = Some e, res_calls = t \<rparr>
                   | (None, opts', t) \<Rightarrow> \<lparr> res_err = None, res_calls = t \<rparr>)))
      | _ \<Rightarrow> \<lparr> res_err = Some errWorkspaceNameArg, res_calls = [] \<rparr>)"

subsection \<open>Reading a trace\<close>

datatype kind = ServiceAccountKind | SecretKind | WorkspaceKind

type_synonym resource = "kind \<times> string \<times> string"

text \<open>The resource a trace entry created (a create call that succeeded).\<close>

fun created_by :: "api_call \<times> error option \<Rightarrow> resource option" where
  "created_by (CreateServiceAccount ns n, None) = Some (ServiceAccountKind, ns, n)"
| "created_by (CreateSecret ns n, None) = Some (SecretKind, ns, n)"
| "created_by (CreateWorkspace ns n _, None) = Some (WorkspaceKind, ns, n)"
| "created_by _ = None"

text \<open>The resource a trace entry asked to delete, whatever the answer.\<close>

fun deleted_by :: "api_call \<times> error option \<Rightarrow> resource option" where
  "deleted_by (DeleteServiceAccount ns n, _) = Some (ServiceAccountKind, ns, n)"
| "deleted_by (DeleteSecret ns n, _) = Some (SecretKind, ns, n)"
| "deleted_by (DeleteWorkspace ns n, _) = Some (WorkspaceKind, ns, n)"
| "deleted_by _ = None"

definition created :: "trace \<Rightarrow> resource list" where
  "created t = List.map_filter created_by t"

definition deleted :: "trace \<Rightarrow> resource list" where
  "deleted t = List.map_filter deleted_by t"

fun is_delete :: "api_call \<Rightarrow> bool" where
  "is_delete (DeleteWorkspace _ _) = True"
| "is_delete (DeleteSecret _ _) = True"
| "is_delete (DeleteServiceAccount _ _) = True"
| "is_delete _ = False"

text \<open>The storage class of every workspace spec a trace submitted.\<close>

fun submitted_storage_class :: "api_call \<times> error option \<Rightarrow> string option option" where
  "submitted_storage_class (CreateWorkspace _ _ sp, _) = Some (cache_StorageClass (spec_Cache sp))"
| "submitted_storage_class _ = None"

definition submitted_storage_classes :: "trace \<Rightarrow> string option list" where
  "submitted_storage_classes t = List.map_filter submitted_storage_class t"

text \<open>
  What a run leaves: the options with the created flags set, and the trace of its
  calls. \<open>run_result\<close> states how the two fit together.
\<close>

definition run_result :: "world \<Rightarrow> newOptions \<Rightarrow> error option \<Rightarrow> newOptions \<Rightarrow> trace \<Rightarrow> bool" where
  "run_result w opts e opts' t =
     (deleted t = []
      \<and> created t =
           (if o_createdServiceAccount opts'
            then [(ServiceAccountKind, o_namespace opts,
                   spec_ServiceAccountName (o_workspaceSpec opts))] else [])
           @ (if o_createdSecret opts'
              then [(SecretKind, o_namespace opts, spec_SecretName (o_workspaceSpec opts))] else [])
           @ (if o_createdWorkspace opts'
              then [(WorkspaceKind, o_namespace opts, o_workspace opts)] else [])
      \<and> o_namespace opts' = o_namespace opts \<and> o_workspace opts' = o_workspace opts
      \<and> o_workspaceSpec opts' = o_workspaceSpec opts
      \<and> o_disableResourceCleanup opts' = o_disableResourceCleanup opts
      \<and> set (submitted_storage_classes t)
           \<subseteq> {cache_StorageClass (spec_Cache (o_workspaceSpec opts))}
      \<and> (o_createdServiceAccount opts' \<longrightarrow>
           cluster_api w (GetServiceAccount (o_namespace opts)
              (spec_ServiceAccountName (o_workspaceSpec opts))) \<noteq> None)
      \<and> (o_createdSecret opts' \<longrightarrow>
           cluster_api w (GetSecret (o_namespace opts)
              (spec_SecretName (o_workspaceSpec opts))) \<noteq> None)
      \<and> (o_createdWorkspace opts' \<longrightarrow>
           cluster_api w (CreateWorkspace (o_namespace opts) (o_workspace opts)
              (o_workspaceSpec opts)) = None))"

subsection \<open>Concrete invocations\<close>

definition plain_invocation :: invocation where
  "plain_invocation =
     \<lparr> inv_args = [''dev''], inv_flags = Map.empty, inv_namespace = ''default'',
       inv_disableCreateServiceAccount = False, inv_disableCreateSecret = False,
       inv_disableResourceCleanup = False \<rparr>"

text \<open>
  A cluster with neither service account nor secret, where every create and delete
  succeeds, and a run whose pod never becomes ready.
\<close>

definition empty_cluster_api :: api where
  "empty_cluster_api c =
     (case c of
        GetServiceAccount _ _ \<Rightarrow> Some NotFound
      | GetSecret _ _ \<Rightarrow> Some NotFound
      | _ \<Rightarrow> None)"

definition pod_timeout_world :: world where
  "pod_timeout_world =
     \<lparr> env_New = None, factory_Create = None, cluster_api = empty_cluster_api,
       wait_and_stream = Some errPodTimeout \<rparr>"

text \<open>The same cluster where every delete fails.\<close>

definition failing_delete_world :: world where
  "failing_delete_world =
     pod_timeout_world\<lparr>cluster_api :=
       (\<lambda>c. if is_delete c then Some (ApiError ''delete failed'') else empty_cluster_api c)\<rparr>"

text \<open>A cluster where the service account and the secret exist already.\<close>

definition existing_credentials_world :: world where
  "existing_credentials_world =
     pod_timeout_world\<lparr>cluster_api := (\<lambda>c. None)\<rparr>"

text \<open>Invocations passing the storage class: empty, and named.\<close>

definition empty_class_invocation :: invocation where
  "empty_class_invocation = plain_invocation\<lparr>inv_flags := [''storage-class'' \<mapsto> []]\<rparr>"

definition named_class_invocation :: invocation where
  "named_class_invocation = plain_invocation\<lparr>inv_flags := [''storage-class'' \<mapsto> ''fast'']\<rparr>"

section \<open>Parts of the controller that are not in the given sources\<close>

subsection \<open>Condition set and health condition\<close>

text \<open>
  Modelled from the spec: the condition set and the health step of the reconciliation
  engine (sections 3 and 4.3 step 2). The given controller source keeps no conditions
  and reads neither secrets nor service accounts; only the tests of the later
  controller (\<^verbatim>\<open>TestReconcileWorkspaceStatus\<close>) are present. A condition is a type, a
  tri-state status and the time of its last transition; a set holds at most one
  condition per type, and setting a condition whose status is unchanged keeps the
  stored transition time. A secret or service account is referenced when its name in
  the workspace spec is not empty.
\<close>

datatype ConditionStatus = ConditionTrue | ConditionFalse | ConditionUnknown

record Condition =
  cond_Type :: string
  cond_Status :: ConditionStatus
  cond_LastTransitionTime :: nat

fun SetCondition :: "Condition \<Rightarrow> Condition list \<Rightarrow> Condition list" where
  "SetCondition c [] = [c]"
| "SetCondition c (d # ds) =
     (if cond_Type d = cond_Type c
      then (if cond_Status d = cond_Status c then d else c) # ds
      else d # SetCondition c ds)"

fun GetCondition :: "string \<Rightarrow> Condition list \<Rightarrow> Condition option" where
  "GetCondition t [] = None"
| "GetCondition t (d # ds) = (if cond_Type d = t then Some d else GetCondition t ds)"

definition ConditionHealthy :: string where
  "ConditionHealthy = ''Healthy''"

text \<open>
  Modelled from the spec: a referenced secret or service account that does not exist
  (\<open>secrets\<close> and \<open>serviceAccounts\<close> are the names that exist in the workspace's
  namespace).
\<close>

definition missing_reference :: "string \<Rightarrow> string list \<Rightarrow> bool" where
  "missing_reference name existing = (name \<noteq> [] \<and> name \<notin> set existing)"

text \<open>
  Modelled from the spec: the health step. Healthy is false if a named secret or
  service account is referenced but does not exist, true otherwise; the condition is
  stored in the workspace's condition set.
\<close>

definition reconcile_health ::
  "string \<Rightarrow> string \<Rightarrow> string list \<Rightarrow> string list \<Rightarrow> nat \<Rightarrow> Condition list \<Rightarrow> Condition list" where
  "reconcile_health secretName serviceAccountName secrets serviceAccounts now conds =
     SetCondition
       \<lparr> cond_Type = ConditionHealthy,
         cond_Status =
           (if missing_reference secretName secrets
               \<or> missing_reference serviceAccountName serviceAccounts
            then ConditionFalse else ConditionTrue),
         cond_LastTransitionTime = now \<rparr>
       conds"

definition healthy_status :: "Condition list \<Rightarrow> ConditionStatus option" where
  "healthy_status conds = map_option cond_Status (GetCondition ConditionHealthy conds)"

subsection \<open>Backend configuration\<close>

text \<open>
  Modelled from the spec: the backend part of the resource synthesizer (sections 4.1
  and 6), absent from the given sources; the exact text of the two blobs is the one
  the repository's test \<^verbatim>\<open>TestReconcileWorkspaceConfigMap\<close> expects. The backend's
  settings are a Go map, here an association list read with \<open>map_of\<close>.
\<close>

definition TAB :: char where
  "TAB = CHR 0x09"

definition NL :: char where
  "NL = CHR 0x0A"

definition DQ :: char where
  "DQ = CHR 0x22"

text \<open>Modelled from the spec: \<^verbatim>\<open>backend.tf\<close>, a minimal block naming the backend type.\<close>

definition backend_tf :: "string \<Rightarrow> string" where
  "backend_tf t =
     ''terraform {'' @ [NL] @ ''  backend '' @ [DQ] @ t @ [DQ] @ '' {}'' @ [NL] @ ''}'' @ [NL]"

text \<open>Modelled from the spec: one line of \<^verbatim>\<open>backend.ini\<close>, key, tab, equals sign, quoted value.\<close>

definition ini_line :: "string \<Rightarrow> string \<Rightarrow> string" where
  "ini_line k v = k @ [TAB] @ ''= '' @ [DQ] @ v @ [DQ] @ [NL]"

text \<open>Modelled from the spec: the settings' keys in ascending order, each once.\<close>

definition sorted_keys :: "(string \<times> string) list \<Rightarrow> string list" where
  "sorted_keys cfg = sort (remdups (map fst cfg))"

text \<open>Modelled from the spec: \<^verbatim>\<open>backend.ini\<close>, one line per key in sorted key order.\<close>

definition backend_ini :: "(string \<times> string) list \<Rightarrow> string" where
  "backend_ini cfg =
     concat (map (\<lambda>k. case map_of cfg k of Some v \<Rightarrow> ini_line k v | None \<Rightarrow> [])
               (sorted_keys cfg))"

section \<open>Basic facts\<close>

lemma append_names_map: "append_names q cs = q @ map cmd_Name cs"
  by (induction cs arbitrary: q) simp_all

lemmas mem_defs = mem_client_def mem_Get_Workspace_def mem_Get_PVC_def
  mem_Create_PVC_def mem_List_Commands_def mem_Status_Update_def

lemmas rec_defs = Reconcile_def finish_def SetControllerReference_def newPVCForCR_def Let_def

lemmas ex_defs = mem_reconciler_def racing_reconciler_def racing_client_def other_creates_pvc_def
  settled_cluster_def fresh_cluster_def workspace_1_def plan_def stored_queue_def

text \<open>
  C1 (evaluated on the code). The claim: the queue written contains exactly the names
  of the commands that belong to the workspace and are not completed. The pass takes
  every command the namespace's list returns: with two commands of \<open>workspace-1\<close> and
  one of \<open>workspace-2\<close> in the namespace, the queue written for \<open>workspace-1\<close> holds
  all three names.
\<close>

theorem queue_lists_other_workspaces:
  "stored_queue
     (final (Reconcile mem_reconciler (''default'', ''workspace-1'')
        (settled_cluster (workspace_1 [])
           [plan ''plan-1'' ''workspace-1'' 1, plan ''plan-2'' ''workspace-1'' 2,
            plan ''plan-3'' ''workspace-2'' 3])))
     (''default'', ''workspace-1'')
   = Some [''plan-1'', ''plan-2'', ''plan-3'']"
  by (simp add: mem_defs rec_defs ex_defs)

text \<open>
  C2, as stated, fails: with previous queue \<open>[plan-2, plan-1]\<close> and the same two
  commands observed, the specification's queue builder keeps \<open>[plan-2, plan-1]\<close>,
  while the pass writes the names in the order the list call returned them.
\<close>

theorem queue_order_counterexample:
  "stored_queue
     (final (Reconcile mem_reconciler (''default'', ''workspace-1'')
        (settled_cluster (workspace_1 [''plan-2'', ''plan-1''])
           [plan ''plan-1'' ''workspace-1'' 2, plan ''plan-2'' ''workspace-1'' 1])))
     (''default'', ''workspace-1'')
   = Some [''plan-1'', ''plan-2'']
   \<and> spec_QueueBuilder [''plan-2'', ''plan-1'']
       [plan ''plan-1'' ''workspace-1'' 2, plan ''plan-2'' ''workspace-1'' 1]
     = [''plan-2'', ''plan-1'']"
  by (simp add: mem_defs rec_defs ex_defs spec_QueueBuilder_def)

text \<open>
  C2 (amended). When a pass reaches the list call and the list returns at least one
  command, the queue it writes is exactly the names of the listed commands in the
  order the list returned them, whatever the previous queue was, and the pass returns
  no error. Stated for the in-memory cluster: the workspace is stored under its own
  key and its claim exists.
\<close>

theorem queue_is_list_order:
  assumes "client r = mem_client" and "''Workspace'' \<in> set (scheme r)"
    and "workspaces c req = Some w" and "(ws_Namespace w, ws_Name w) = req"
    and "pvcs c (ws_Namespace w, ws_Name w @ ''-pvc'') \<noteq> None"
    and "filter (\<lambda>x. cmd_Namespace x = fst req) (commands c) \<noteq> []"
  shows "stored_queue (final (Reconcile r req c)) req
           = Some (map cmd_Name (filter (\<lambda>x. cmd_Namespace x = fst req) (commands c)))
         \<and> err (Reconcile r req c) = None"
  using assms
  by (auto simp: mem_defs rec_defs stored_queue_def append_names_map split: option.splits)

text \<open>
  The instance the specification names: previous queue \<open>[plan-1]\<close>, commands
  \<open>plan-1\<close> and \<open>plan-2\<close> observed, queue \<open>[plan-1, plan-2]\<close>.
\<close>

theorem queue_is_list_order_witness:
  "stored_queue
     (final (Reconcile mem_reconciler (''default'', ''workspace-1'')
        (settled_cluster (workspace_1 [''plan-1''])
           [plan ''plan-1'' ''workspace-1'' 1, plan ''plan-2'' ''workspace-1'' 2])))
     (''default'', ''workspace-1'')
   = Some [''plan-1'', ''plan-2'']"
  using queue_is_list_order [of mem_reconciler
      "settled_cluster (workspace_1 [''plan-1''])
           [plan ''plan-1'' ''workspace-1'' 1, plan ''plan-2'' ''workspace-1'' 2]"
      "(''default'', ''workspace-1'')" "workspace_1 [''plan-1'']"]
  by (simp add: ex_defs newPVCForCR_def)

lemma mem_pass_create:
  assumes "client r = mem_client" and "workspaces c req = Some w"
    and "''Workspace'' \<in> set (scheme r)"
    and "pvcs c (ws_Namespace w, ws_Name w @ ''-pvc'') = None"
  shows "Reconcile r req c =
           finish None
             [CallGetWorkspace req, CallGetPVC (ws_Namespace w, ws_Name w @ ''-pvc''),
              CallCreatePVC (ws_Namespace w, ws_Name w @ ''-pvc'')]
             (c\<lparr>pvcs := (pvcs c)((ws_Namespace w, ws_Name w @ ''-pvc'') \<mapsto>
                 (newPVCForCR w)\<lparr>pvc_Controller := Some (ws_Namespace w, ws_Name w)\<rparr>)\<rparr>)"
  using assms
  by (simp add: Reconcile_def mem_defs SetControllerReference_def newPVCForCR_def Let_def)

lemma mem_pass_queue:
  assumes "client r = mem_client" and "workspaces c req = Some w"
    and "''Workspace'' \<in> set (scheme r)"
    and "pvcs c (ws_Namespace w, ws_Name w @ ''-pvc'') = Some p"
    and "filter (\<lambda>x. cmd_Namespace x = fst req) (commands c) \<noteq> []"
  shows "Reconcile r req c =
           finish None
             [CallGetWorkspace req, CallGetPVC (ws_Namespace w, ws_Name w @ ''-pvc''),
              CallListCommands (fst req),
              CallStatusUpdate (ws_Namespace w, ws_Name w)
                (map cmd_Name (filter (\<lambda>x. cmd_Namespace x = fst req) (commands c)))]
             (snd (mem_Status_Update
                (w\<lparr>Status := (Status w)\<lparr>Queue :=
                     map cmd_Name (filter (\<lambda>x. cmd_Namespace x = fst req) (commands c))\<rparr>\<rparr>) c))"
  using assms
  by (simp add: Reconcile_def mem_client_def mem_Get_Workspace_def mem_Get_PVC_def
      mem_List_Commands_def SetControllerReference_def newPVCForCR_def Let_def append_names_map)


text \<open>A status update touches neither the claims nor the commands, nor the names stored.\<close>

lemma mem_Status_Update_frame:
  "pvcs (snd (mem_Status_Update w c)) = pvcs c"
  "commands (snd (mem_Status_Update w c)) = commands c"
  by (simp_all add: mem_Status_Update_def split: option.splits)

lemma mem_Status_Update_lookup:
  "workspaces (snd (mem_Status_Update w c)) k =
     (if k = (ws_Namespace w, ws_Name w)
      then map_option (\<lambda>old. old\<lparr>Status := Status w\<rparr>) (workspaces c k)
      else workspaces c k)"
  by (simp add: mem_Status_Update_def split: option.splits)

lemma mem_Status_Update_twice:
  assumes "Status w' = Status w" and "ws_Namespace w' = ws_Namespace w" and "ws_Name w' = ws_Name w"
  shows "snd (mem_Status_Update w' (snd (mem_Status_Update w c))) = snd (mem_Status_Update w c)"
  using assms by (simp add: mem_Status_Update_def split: option.splits)

text \<open>One pass of any client, case by case.\<close>

lemma pass_no_workspace:
  assumes "Get_Workspace (client r) req s = Inl e"
  shows "final (Reconcile r req s) = s" and "calls (Reconcile r req s) = [CallGetWorkspace req]"
  using assms by (simp_all add: Reconcile_def finish_def)

lemma pass_no_scheme:
  assumes "Get_Workspace (client r) req s = Inr w" and "''Workspace'' \<notin> set (scheme r)"
  shows "err (Reconcile r req s) \<noteq> None"
  using assms by (simp add: Reconcile_def finish_def SetControllerReference_def)

lemma pass_lookup_error:
  assumes "Get_Workspace (client r) req s = Inr w" and "''Workspace'' \<in> set (scheme r)"
    and "Get_PVC (client r) (ws_Namespace w, ws_Name w @ ''-pvc'') s = Inl e"
    and "\<not> IsNotFound e"
  shows "err (Reconcile r req s) \<noteq> None"
  using assms by (simp add: rec_defs)

lemma pass_create:
  assumes "Get_Workspace (client r) req s = Inr w" and "''Workspace'' \<in> set (scheme r)"
    and "Get_PVC (client r) (ws_Namespace w, ws_Name w @ ''-pvc'') s = Inl e"
    and "IsNotFound e"
    and "Create_PVC (client r)
           ((newPVCForCR w)\<lparr>pvc_Controller := Some (ws_Namespace w, ws_Name w)\<rparr>) s = (x, s')"
  shows "Reconcile r req s =
           finish x
             [CallGetWorkspace req, CallGetPVC (ws_Namespace w, ws_Name w @ ''-pvc''),
              CallCreatePVC (ws_Namespace w, ws_Name w @ ''-pvc'')] s'"
  using assms by (cases x) (simp_all add: rec_defs)

lemma pass_list_error:
  assumes "Get_Workspace (client r) req s = Inr w" and "''Workspace'' \<in> set (scheme r)"
    and "Get_PVC (client r) (ws_Namespace w, ws_Name w @ ''-pvc'') s = Inr f"
    and "List_Commands (client r) (fst req) s = Inl e"
  shows "Reconcile r req s =
           finish (Some e)
             [CallGetWorkspace req, CallGetPVC (ws_Namespace w, ws_Name w @ ''-pvc''),
              CallListCommands (fst req)] s"
  using assms by (simp add: rec_defs)

lemma pass_no_commands:
  assumes "Get_Workspace (client r) req s = Inr w" and "''Workspace'' \<in> set (scheme r)"
    and "Get_PVC (client r) (ws_Namespace w, ws_Name w @ ''-pvc'') s = Inr f"
    and "List_Commands (client r) (fst req) s = Inr []"
  shows "Reconcile r req s =
           finish None
             [CallGetWorkspace req, CallGetPVC (ws_Namespace w, ws_Name w @ ''-pvc''),
              CallListCommands (fst req)] s"
  using assms by (simp add: rec_defs)

lemma pass_queue:
  assumes "Get_Workspace (client r) req s = Inr w" and "''Workspace'' \<in> set (scheme r)"
    and "Get_PVC (client r) (ws_Namespace w, ws_Name w @ ''-pvc'') s = Inr f"
    and "List_Commands (client r) (fst req) s = Inr items" and "items \<noteq> []"
  shows "Reconcile r req s =
           finish None
             [CallGetWorkspace req, CallGetPVC (ws_Namespace w, ws_Name w @ ''-pvc''),
              CallListCommands (fst req),
              CallStatusUpdate (ws_Namespace w, ws_Name w) (map cmd_Name items)]
             (snd (Status_Update (client r)
                (w\<lparr>Status := (Status w)\<lparr>Queue := map cmd_Name items\<rparr>\<rparr>) s))"
  using assms by (simp add: rec_defs append_names_map)

text \<open>A pass that finds the claim issues no create, whatever the list answers.\<close>

lemma pass_found_no_create:
  assumes "Get_Workspace (client r) req s = Inr w"
    and "Get_PVC (client r) (ws_Namespace w, ws_Name w @ ''-pvc'') s = Inr f"
  shows "\<not> list_ex is_create (calls (Reconcile r req s))"
  using assms by (auto simp: rec_defs split: sum.splits)

lemma queue_status_eq: "(a :: WorkspaceStatus)\<lparr>Queue := q\<rparr> = b\<lparr>Queue := q\<rparr>"
  by simp


lemma mem_create_is_read: "create_is_read mem_client"
  by (auto simp: create_is_read_def mem_defs split: option.splits)

lemma mem_status_update_keeps_reads: "status_update_keeps_reads mem_client"
  by (auto simp: status_update_keeps_reads_def mem_defs split: option.splits)

lemma mem_status_update_idempotent: "status_update_idempotent mem_client"
  using mem_Status_Update_twice by (simp add: status_update_idempotent_def mem_client_def)

text \<open>
  C3 (amended). For every client whose reads are up to date with its own writes (a
  claim it created is found by the next lookup; creating a claim or updating a status
  changes nothing else that is read; writing the same status twice is writing it
  once): if the first of two successive passes returns no error, the second pass
  issues no create call; and the second pass leaves the state, the workspace's status
  included, as the first pass left it, whenever the first pass created nothing or the
  namespace has no commands.
\<close>

theorem reconcile_twice:
  assumes cr: "create_is_read (client r)" and keep: "status_update_keeps_reads (client r)"
    and idem: "status_update_idempotent (client r)"
    and ok: "err (Reconcile r req s) = None"
  shows "\<not> list_ex is_create (calls (Reconcile r req (final (Reconcile r req s))))
         \<and> (\<not> list_ex is_create (calls (Reconcile r req s))
              \<or> List_Commands (client r) (fst req) s = Inr []
            \<longrightarrow> final (Reconcile r req (final (Reconcile r req s)))
                = final (Reconcile r req s))"
proof (cases "Get_Workspace (client r) req s")
  case (Inl e)
  then have "final (Reconcile r req s) = s" and "calls (Reconcile r req s) = [CallGetWorkspace req]"
    by (rule pass_no_workspace)+
  then show ?thesis by simp
next
  case (Inr w)
  let ?k = "(ws_Namespace w, ws_Name w @ ''-pvc'')"
  let ?p = "(newPVCForCR w)\<lparr>pvc_Controller := Some (ws_Namespace w, ws_Name w)\<rparr>"
  have sc: "''Workspace'' \<in> set (scheme r)"
    using pass_no_scheme [OF Inr] ok by blast
  show ?thesis
  proof (cases "Get_PVC (client r) ?k s")
    case miss: (Inl e)
    have nf: "IsNotFound e" using pass_lookup_error [OF Inr sc miss] ok by blast
    obtain x s' where c: "Create_PVC (client r) ?p s = (x, s')" by (cases "Create_PVC (client r) ?p s")
    have first: "Reconcile r req s =
           finish x [CallGetWorkspace req, CallGetPVC ?k, CallCreatePVC ?k] s'"
      by (rule pass_create [OF Inr sc miss nf c])
    then have x: "x = None" using ok by (simp add: finish_def)
    have "pvc_Namespace ?p = ws_Namespace w" and "pvc_Name ?p = ws_Name w @ ''-pvc''"
      by (simp_all add: newPVCForCR_def)
    then obtain f where f: "Get_PVC (client r) ?k s' = Inr f"
      and w': "Get_Workspace (client r) req s' = Inr w"
      and l': "List_Commands (client r) (fst req) s' = List_Commands (client r) (fst req) s"
      using cr c x Inr unfolding create_is_read_def by metis
    have s1: "final (Reconcile r req s) = s'" using first by (simp add: finish_def)
    have no: "\<not> list_ex is_create (calls (Reconcile r req s'))"
      by (rule pass_found_no_create [OF w' f])
    have same: "final (Reconcile r req s') = s'"
      if "List_Commands (client r) (fst req) s = Inr []"
      using pass_no_commands [OF w' sc f] that l' by (simp add: finish_def)
    have created: "list_ex is_create (calls (Reconcile r req s))"
      using first by (simp add: finish_def)
    show ?thesis using s1 no same created by simp
  next
    case found: (Inr f)
    show ?thesis
    proof (cases "List_Commands (client r) (fst req) s")
      case (Inl e)
      then show ?thesis using pass_list_error [OF Inr sc found Inl] ok by (simp add: finish_def)
    next
      case items: (Inr items)
      show ?thesis
      proof (cases "items = []")
        case True
        then have "Reconcile r req s =
            finish None [CallGetWorkspace req, CallGetPVC ?k, CallListCommands (fst req)] s"
          using pass_no_commands [OF Inr sc found] items by simp
        then show ?thesis by (simp add: finish_def)
      next
        case False
        let ?q = "map cmd_Name items"
        let ?u = "w\<lparr>Status := (Status w)\<lparr>Queue := ?q\<rparr>\<rparr>"
        let ?s1 = "snd (Status_Update (client r) ?u s)"
        have s1: "final (Reconcile r req s) = ?s1"
          using pass_queue [OF Inr sc found items False] by (simp add: finish_def)
        obtain v where v: "Get_Workspace (client r) req ?s1 = Inr v"
          and n: "ws_Name v = ws_Name w" "ws_Namespace v = ws_Namespace w"
          using keep Inr unfolding status_update_keeps_reads_def by metis
        have f1: "Get_PVC (client r) (ws_Namespace v, ws_Name v @ ''-pvc'') ?s1 = Inr f"
          using keep found n unfolding status_update_keeps_reads_def by simp
        have l1: "List_Commands (client r) (fst req) ?s1 = Inr items"
          using keep items unfolding status_update_keeps_reads_def by simp
        have no: "\<not> list_ex is_create (calls (Reconcile r req ?s1))"
          by (rule pass_found_no_create [OF v f1])
        let ?u' = "v\<lparr>Status := (Status v)\<lparr>Queue := ?q\<rparr>\<rparr>"
        have "final (Reconcile r req ?s1) = snd (Status_Update (client r) ?u' ?s1)"
          using pass_queue [OF v sc f1 l1 False] by (simp add: finish_def)
        also have "\<dots> = ?s1"
        proof -
          have "ws_Name ?u' = ws_Name ?u \<and> ws_Namespace ?u' = ws_Namespace ?u
                \<and> Status ?u' = Status ?u"
            using n by simp
          then show ?thesis using idem unfolding status_update_idempotent_def by blast
        qed
        finally show ?thesis using s1 no by simp
      qed
    qed
  qed
qed

text \<open>
  On the cluster store: a workspace whose claim exists and that has a command, and a
  workspace without claim and without commands.
\<close>

theorem reconcile_twice_witness:
  "\<not> list_ex is_create
       (calls (Reconcile mem_reconciler (''default'', ''workspace-1'')
          (final (Reconcile mem_reconciler (''default'', ''workspace-1'')
             (settled_cluster (workspace_1 []) [plan ''plan-1'' ''workspace-1'' 1])))))
   \<and> final (Reconcile mem_reconciler (''default'', ''workspace-1'')
        (final (Reconcile mem_reconciler (''default'', ''workspace-1'')
           (settled_cluster (workspace_1 []) [plan ''plan-1'' ''workspace-1'' 1]))))
     = final (Reconcile mem_reconciler (''default'', ''workspace-1'')
         (settled_cluster (workspace_1 []) [plan ''plan-1'' ''workspace-1'' 1]))
   \<and> stored_queue
        (final (Reconcile mem_reconciler (''default'', ''workspace-1'')
           (settled_cluster (workspace_1 []) [plan ''plan-1'' ''workspace-1'' 1])))
        (''default'', ''workspace-1'') = Some [''plan-1'']
   \<and> \<not> list_ex is_create
       (calls (Reconcile mem_reconciler (''default'', ''workspace-1'')
          (final (Reconcile mem_reconciler (''default'', ''workspace-1'')
             (fresh_cluster (workspace_1 []) [])))))
   \<and> final (Reconcile mem_reconciler (''default'', ''workspace-1'')
        (final (Reconcile mem_reconciler (''default'', ''workspace-1'')
           (fresh_cluster (workspace_1 []) []))))
     = final (Reconcile mem_reconciler (''default'', ''workspace-1'')
         (fresh_cluster (workspace_1 []) []))"
proof -
  have c: "client mem_reconciler = mem_client" by (simp add: mem_reconciler_def)
  have l1: "create_is_read (client mem_reconciler)"
    and l2: "status_update_keeps_reads (client mem_reconciler)"
    and l3: "status_update_idempotent (client mem_reconciler)"
    unfolding c
    by (rule mem_create_is_read mem_status_update_keeps_reads mem_status_update_idempotent)+
  have ok1: "err (Reconcile mem_reconciler (''default'', ''workspace-1'')
         (settled_cluster (workspace_1 []) [plan ''plan-1'' ''workspace-1'' 1])) = None"
    by (simp add: mem_defs rec_defs ex_defs)
  have n1: "\<not> list_ex is_create (calls (Reconcile mem_reconciler (''default'', ''workspace-1'')
         (settled_cluster (workspace_1 []) [plan ''plan-1'' ''workspace-1'' 1])))"
    by (simp add: mem_defs rec_defs ex_defs)
  have q: "stored_queue
        (final (Reconcile mem_reconciler (''default'', ''workspace-1'')
           (settled_cluster (workspace_1 []) [plan ''plan-1'' ''workspace-1'' 1])))
        (''default'', ''workspace-1'') = Some [''plan-1'']"
    by (simp add: mem_defs rec_defs ex_defs)
  have ok2: "err (Reconcile mem_reconciler (''default'', ''workspace-1'')
         (fresh_cluster (workspace_1 []) [])) = None"
    by (simp add: mem_defs rec_defs ex_defs)
  have e2: "List_Commands (client mem_reconciler) (fst (''default'', ''workspace-1''))
         (fresh_cluster (workspace_1 []) []) = Inr []"
    by (simp add: mem_defs ex_defs)
  show ?thesis
    using reconcile_twice [OF l1 l2 l3 ok1] reconcile_twice [OF l1 l2 l3 ok2] n1 q e2
    by blast
qed

text \<open>
  C3, as stated, fails. On the cluster store, for a workspace whose claim does not
  exist yet and that has a command, the first pass creates the claim and leaves the
  queue empty, and the second pass on the unchanged cluster writes the queue: the
  status after the second pass differs from the one after the first. With a client
  whose create call is refused, and with a client whose claim lookup is stale, the
  second pass on the unchanged cluster issues a create call again.
\<close>

theorem reconcile_twice_counterexample:
  "stored_queue
     (final (Reconcile mem_reconciler (''default'', ''workspace-1'')
        (fresh_cluster (workspace_1 []) [plan ''plan-1'' ''workspace-1'' 1])))
     (''default'', ''workspace-1'') = Some []
   \<and> stored_queue
     (final (Reconcile mem_reconciler (''default'', ''workspace-1'')
        (final (Reconcile mem_reconciler (''default'', ''workspace-1'')
           (fresh_cluster (workspace_1 []) [plan ''plan-1'' ''workspace-1'' 1])))))
     (''default'', ''workspace-1'') = Some [''plan-1'']
   \<and> list_ex is_create
       (calls (Reconcile refusing_reconciler (''default'', ''workspace-1'')
          (final (Reconcile refusing_reconciler (''default'', ''workspace-1'')
             (fresh_cluster (workspace_1 []) [])))))
   \<and> final (Reconcile refusing_reconciler (''default'', ''workspace-1'')
             (fresh_cluster (workspace_1 []) []))
     = fresh_cluster (workspace_1 []) []
   \<and> err (Reconcile stale_reconciler (''default'', ''workspace-1'')
             (fresh_cluster (workspace_1 []) [])) = None
   \<and> list_ex is_create
       (calls (Reconcile stale_reconciler (''default'', ''workspace-1'')
          (final (Reconcile stale_reconciler (''default'', ''workspace-1'')
             (fresh_cluster (workspace_1 []) [])))))"
  by (simp add: mem_defs rec_defs ex_defs refusing_reconciler_def refusing_client_def
      stale_reconciler_def stale_client_def)

text \<open>
  C4, as stated, fails: when another actor creates the claim after the reconciler
  found it missing, the create call fails with AlreadyExists and the pass returns
  that error.
\<close>

theorem create_race_counterexample:
  "err (Reconcile (racing_reconciler (workspace_1 [])) (''default'', ''workspace-1'')
         (fresh_cluster (workspace_1 []) []))
   = Some AlreadyExists"
  by (simp add: mem_defs rec_defs ex_defs)

text \<open>
  C4 (amended). For every client: when the workspace is found, the lookup of its
  claim answers NotFound and the create call then fails because the claim already
  exists, the pass returns the already-exists error to its caller, without requeue
  flag, having issued no list and no status update.
\<close>

theorem create_already_exists_is_returned:
  assumes "Get_Workspace (client r) req s = Inr w"
    and "''Workspace'' \<in> set (scheme r)"
    and "Get_PVC (client r) (ws_Namespace w, ws_Name w @ ''-pvc'') s = Inl e"
    and "IsNotFound e"
    and "fst (Create_PVC (client r)
           ((newPVCForCR w)\<lparr>pvc_Controller := Some (ws_Namespace w, ws_Name w)\<rparr>) s)
         = Some AlreadyExists"
  shows "err (Reconcile r req s) = Some AlreadyExists
         \<and> \<not> Requeue (Reconcile r req s)
         \<and> calls (Reconcile r req s)
           = [CallGetWorkspace req, CallGetPVC (ws_Namespace w, ws_Name w @ ''-pvc''),
              CallCreatePVC (ws_Namespace w, ws_Name w @ ''-pvc'')]"
  using assms
  by (auto simp: rec_defs split: prod.splits option.splits)

theorem create_already_exists_is_returned_witness:
  "err (Reconcile (racing_reconciler (workspace_1 [])) (''default'', ''workspace-1'')
         (fresh_cluster (workspace_1 []) [plan ''plan-1'' ''workspace-1'' 1]))
     = Some AlreadyExists
   \<and> calls (Reconcile (racing_reconciler (workspace_1 [])) (''default'', ''workspace-1'')
         (fresh_cluster (workspace_1 []) [plan ''plan-1'' ''workspace-1'' 1]))
     = [CallGetWorkspace (''default'', ''workspace-1''),
        CallGetPVC (''default'', ''workspace-1-pvc''),
        CallCreatePVC (''default'', ''workspace-1-pvc'')]"
  using create_already_exists_is_returned
    [of "racing_reconciler (workspace_1 [])" "(''default'', ''workspace-1'')"
        "fresh_cluster (workspace_1 []) [plan ''plan-1'' ''workspace-1'' 1]"
        "workspace_1 []" NotFound]
  by (simp add: mem_defs ex_defs newPVCForCR_def)

text \<open>
  C8, as stated, fails: the claim of the workspace named \<open>workspace-1\<close> is named
  \<open>workspace-1-pvc\<close>, which is not \<open>workspace-\<close> followed by the workspace's name.
\<close>

theorem pvc_name_counterexample:
  "pvc_Name (newPVCForCR (workspace_1 [])) = ''workspace-1-pvc''
   \<and> pvc_Name (newPVCForCR (workspace_1 [])) \<noteq> ''workspace-'' @ ws_Name (workspace_1 [])"
  by (simp add: newPVCForCR_def workspace_1_def)

text \<open>
  C8 (amended). The cache volume claim, the one dependent resource this reconciler
  creates, is named from the workspace alone: the workspace's name followed by
  \<open>-pvc\<close>, in the workspace's namespace; two workspaces have the same claim key exactly
  when they have the same namespace and name; and every claim lookup or create a pass
  issues for a workspace uses that key.
\<close>

theorem pvc_named_from_workspace:
  "pvc_Name (newPVCForCR cr) = ws_Name cr @ ''-pvc''
   \<and> pvc_Namespace (newPVCForCR cr) = ws_Namespace cr
   \<and> ((pvc_Namespace (newPVCForCR cr), pvc_Name (newPVCForCR cr))
        = (pvc_Namespace (newPVCForCR cr'), pvc_Name (newPVCForCR cr'))
      \<longleftrightarrow> (ws_Namespace cr, ws_Name cr) = (ws_Namespace cr', ws_Name cr'))
   \<and> (Get_Workspace (client r) req s = Inr cr \<longrightarrow>
        (\<forall>k. CallGetPVC k \<in> set (calls (Reconcile r req s))
               \<or> CallCreatePVC k \<in> set (calls (Reconcile r req s))
             \<longrightarrow> k = (ws_Namespace cr, ws_Name cr @ ''-pvc'')))"
  by (auto simp: rec_defs split: sum.splits prod.splits option.splits if_splits)

theorem pvc_named_from_workspace_witness:
  "pvc_Name (newPVCForCR (workspace_1 [])) = ''workspace-1-pvc''
   \<and> pvc_Namespace (newPVCForCR (workspace_1 [])) = ''default''
   \<and> CallCreatePVC (''default'', ''workspace-1-pvc'')
       \<in> set (calls (Reconcile mem_reconciler (''default'', ''workspace-1'')
                 (fresh_cluster (workspace_1 []) [])))"
  using pvc_named_from_workspace [of "workspace_1 []" "workspace_1 []" mem_reconciler
      "(''default'', ''workspace-1'')" "fresh_cluster (workspace_1 []) []"]
  by (simp add: mem_defs rec_defs ex_defs)


text \<open>
  C10. For every client: on the pass in which the workspace is found and the lookup of
  its claim answers NotFound, the calls issued are exactly the workspace lookup, the
  claim lookup and the claim create; no list of commands and no status update is
  issued, the state left is the one the create left, and the error is the create's.
  On the cluster store: such a pass leaves the stored workspaces, and so the queue, as
  they were, and the pass after it writes the queue when the namespace has commands.
\<close>

theorem create_pass_returns_early:
  "(Get_Workspace (client r) req s = Inr w
      \<and> ''Workspace'' \<in> set (scheme r)
      \<and> Get_PVC (client r) (ws_Namespace w, ws_Name w @ ''-pvc'') s = Inl e
      \<and> IsNotFound e
    \<longrightarrow> calls (Reconcile r req s)
          = [CallGetWorkspace req, CallGetPVC (ws_Namespace w, ws_Name w @ ''-pvc''),
             CallCreatePVC (ws_Namespace w, ws_Name w @ ''-pvc'')]
        \<and> \<not> list_ex is_list (calls (Reconcile r req s))
        \<and> \<not> list_ex is_status_update (calls (Reconcile r req s))
        \<and> final (Reconcile r req s)
          = snd (Create_PVC (client r)
                   ((newPVCForCR w)\<lparr>pvc_Controller := Some (ws_Namespace w, ws_Name w)\<rparr>) s)
        \<and> err (Reconcile r req s)
          = fst (Create_PVC (client r)
                   ((newPVCForCR w)\<lparr>pvc_Controller := Some (ws_Namespace w, ws_Name w)\<rparr>) s))
   \<and> (client m = mem_client
      \<and> ''Workspace'' \<in> set (scheme m)
      \<and> workspaces c k = Some v
      \<and> (ws_Namespace v, ws_Name v) = k
      \<and> pvcs c (ws_Namespace v, ws_Name v @ ''-pvc'') = None
    \<longrightarrow> workspaces (final (Reconcile m k c)) = workspaces c
        \<and> stored_queue (final (Reconcile m k c)) k = Some (Queue (Status v))
        \<and> (filter (\<lambda>x. cmd_Namespace x = fst k) (commands c) \<noteq> []
           \<longrightarrow> stored_queue (final (Reconcile m k (final (Reconcile m k c)))) k
               = Some (map cmd_Name (filter (\<lambda>x. cmd_Namespace x = fst k) (commands c)))))"
proof (intro conjI impI)
  assume h: "Get_Workspace (client r) req s = Inr w
      \<and> ''Workspace'' \<in> set (scheme r)
      \<and> Get_PVC (client r) (ws_Namespace w, ws_Name w @ ''-pvc'') s = Inl e
      \<and> IsNotFound e"
  let ?p = "(newPVCForCR w)\<lparr>pvc_Controller := Some (ws_Namespace w, ws_Name w)\<rparr>"
  have R: "Reconcile r req s
        = finish (fst (Create_PVC (client r) ?p s))
            [CallGetWorkspace req, CallGetPVC (ws_Namespace w, ws_Name w @ ''-pvc''),
             CallCreatePVC (ws_Namespace w, ws_Name w @ ''-pvc'')]
            (snd (Create_PVC (client r) ?p s))"
    using h by (auto simp: rec_defs split: prod.splits option.splits)
  show "calls (Reconcile r req s)
          = [CallGetWorkspace req, CallGetPVC (ws_Namespace w, ws_Name w @ ''-pvc''),
             CallCreatePVC (ws_Namespace w, ws_Name w @ ''-pvc'')]"
    by (simp add: R finish_def)
  show "\<not> list_ex is_list (calls (Reconcile r req s))" by (simp add: R finish_def)
  show "\<not> list_ex is_status_update (calls (Reconcile r req s))" by (simp add: R finish_def)
  show "final (Reconcile r req s) = snd (Create_PVC (client r) ?p s)" by (simp add: R finish_def)
  show "err (Reconcile r req s) = fst (Create_PVC (client r) ?p s)" by (simp add: R finish_def)
next
  assume h: "client m = mem_client
      \<and> ''Workspace'' \<in> set (scheme m)
      \<and> workspaces c k = Some v
      \<and> (ws_Namespace v, ws_Name v) = k
      \<and> pvcs c (ws_Namespace v, ws_Name v @ ''-pvc'') = None"
  then have m: "client m = mem_client" and sc: "''Workspace'' \<in> set (scheme m)"
    and v: "workspaces c k = Some v" and k: "(ws_Namespace v, ws_Name v) = k"
    and p: "pvcs c (ws_Namespace v, ws_Name v @ ''-pvc'') = None"
    by simp_all
  let ?c' = "c\<lparr>pvcs := (pvcs c)((ws_Namespace v, ws_Name v @ ''-pvc'') \<mapsto>
                 (newPVCForCR v)\<lparr>pvc_Controller := Some (ws_Namespace v, ws_Name v)\<rparr>)\<rparr>"
  have first: "final (Reconcile m k c) = ?c'"
    using mem_pass_create [OF m v sc p] by (simp add: finish_def)
  show "workspaces (final (Reconcile m k c)) = workspaces c" by (simp add: first)
  show "stored_queue (final (Reconcile m k c)) k = Some (Queue (Status v))"
    using v by (simp add: first stored_queue_def)
  show "stored_queue (final (Reconcile m k (final (Reconcile m k c)))) k
               = Some (map cmd_Name (filter (\<lambda>x. cmd_Namespace x = fst k) (commands c)))"
    if l: "filter (\<lambda>x. cmd_Namespace x = fst k) (commands c) \<noteq> []"
  proof -
    have v2: "workspaces ?c' k = Some v" using v by simp
    have p2: "pvcs ?c' (ws_Namespace v, ws_Name v @ ''-pvc'')
                = Some ((newPVCForCR v)\<lparr>pvc_Controller := Some (ws_Namespace v, ws_Name v)\<rparr>)"
      by simp
    have l2: "filter (\<lambda>x. cmd_Namespace x = fst k) (commands ?c') \<noteq> []" using l by simp
    show ?thesis
      unfolding first
      using mem_pass_queue [OF m v2 sc p2 l2] k v
      by (simp add: finish_def stored_queue_def mem_Status_Update_lookup)
  qed
qed

theorem create_pass_returns_early_witness:
  "calls (Reconcile mem_reconciler (''default'', ''workspace-1'')
            (fresh_cluster (workspace_1 []) [plan ''plan-1'' ''workspace-1'' 1]))
     = [CallGetWorkspace (''default'', ''workspace-1''),
        CallGetPVC (''default'', ''workspace-1-pvc''),
        CallCreatePVC (''default'', ''workspace-1-pvc'')]
   \<and> stored_queue
       (final (Reconcile mem_reconciler (''default'', ''workspace-1'')
                (fresh_cluster (workspace_1 []) [plan ''plan-1'' ''workspace-1'' 1])))
       (''default'', ''workspace-1'') = Some []
   \<and> stored_queue
       (final (Reconcile mem_reconciler (''default'', ''workspace-1'')
         (final (Reconcile mem_reconciler (''default'', ''workspace-1'')
                (fresh_cluster (workspace_1 []) [plan ''plan-1'' ''workspace-1'' 1])))))
       (''default'', ''workspace-1'') = Some [''plan-1'']"
  using create_pass_returns_early
    [of mem_reconciler "(''default'', ''workspace-1'')"
        "fresh_cluster (workspace_1 []) [plan ''plan-1'' ''workspace-1'' 1]"
        "workspace_1 []" NotFound
        mem_reconciler "fresh_cluster (workspace_1 []) [plan ''plan-1'' ''workspace-1'' 1]"
        "(''default'', ''workspace-1'')" "workspace_1 []"]
  by (simp add: mem_defs ex_defs rec_defs)

lemmas new_defs = RunE_def run_def createServiceAccountIfMissing_def createSecretIfMissing_def
  createWorkspace_def cleanup_def bind_flags_def default_storage_class_def IsFlagPassed_def
  flag_String_def Let_def

lemmas trace_defs = created_def deleted_def submitted_storage_classes_def List.map_filter_def

lemma sa_step:
  assumes "createServiceAccountIfMissing a opts = (e, opts', t)"
  shows "submitted_storage_classes t = []" and "deleted t = []"
    and "opts' = (if created t = [] then opts else opts\<lparr>o_createdServiceAccount := True\<rparr>)"
    and "created t = [] \<or>
         (created t = [(ServiceAccountKind, o_namespace opts,
                        spec_ServiceAccountName (o_workspaceSpec opts))]
          \<and> e = None
          \<and> a (GetServiceAccount (o_namespace opts)
                 (spec_ServiceAccountName (o_workspaceSpec opts))) \<noteq> None)"
    and "e \<noteq> None \<longrightarrow> created t = []"
  using assms
  by (auto simp: createServiceAccountIfMissing_def Let_def trace_defs
      split: option.splits if_splits)

lemma secret_step:
  assumes "createSecretIfMissing a opts = (e, opts', t)"
  shows "submitted_storage_classes t = []" and "deleted t = []"
    and "opts' = (if created t = [] then opts else opts\<lparr>o_createdSecret := True\<rparr>)"
    and "created t = [] \<or>
         (created t = [(SecretKind, o_namespace opts, spec_SecretName (o_workspaceSpec opts))]
          \<and> e = None
          \<and> a (GetSecret (o_namespace opts) (spec_SecretName (o_workspaceSpec opts))) \<noteq> None)"
    and "e \<noteq> None \<longrightarrow> created t = []"
  using assms
  by (auto simp: createSecretIfMissing_def Let_def trace_defs split: option.splits if_splits)

lemma workspace_step:
  assumes "createWorkspace a opts = (e, t)"
  shows "submitted_storage_classes t = [cache_StorageClass (spec_Cache (o_workspaceSpec opts))]"
    and "deleted t = []"
    and "created t = (if e = None then [(WorkspaceKind, o_namespace opts, o_workspace opts)] else [])"
    and "a (CreateWorkspace (o_namespace opts) (o_workspace opts) (o_workspaceSpec opts)) = e"
  using assms
  by (auto simp: createWorkspace_def Let_def trace_defs split: option.splits)


text \<open>The first two steps of \<open>run\<close>, including the case where the flag disables them.\<close>

lemma sa_stage:
  assumes "(if \<not> o_disableCreateServiceAccount opts
            then createServiceAccountIfMissing a opts else (None, opts, [])) = (e, opts', t)"
  shows "submitted_storage_classes t = []" and "deleted t = []"
    and "opts' = (if created t = [] then opts else opts\<lparr>o_createdServiceAccount := True\<rparr>)"
    and "created t = [] \<or>
         (created t = [(ServiceAccountKind, o_namespace opts,
                        spec_ServiceAccountName (o_workspaceSpec opts))]
          \<and> e = None
          \<and> a (GetServiceAccount (o_namespace opts)
                 (spec_ServiceAccountName (o_workspaceSpec opts))) \<noteq> None)"
    and "e \<noteq> None \<longrightarrow> created t = []"
proof -
  show "submitted_storage_classes t = []"
    using assms sa_step(1) [of a opts e opts' t]
    by (cases "o_disableCreateServiceAccount opts") (auto simp: trace_defs)
  show "deleted t = []"
    using assms sa_step(2) [of a opts e opts' t]
    by (cases "o_disableCreateServiceAccount opts") (auto simp: trace_defs)
  show "opts' = (if created t = [] then opts else opts\<lparr>o_createdServiceAccount := True\<rparr>)"
    using assms sa_step(3) [of a opts e opts' t]
    by (cases "o_disableCreateServiceAccount opts") (auto simp: trace_defs)
  show "created t = [] \<or>
         (created t = [(ServiceAccountKind, o_namespace opts,
                        spec_ServiceAccountName (o_workspaceSpec opts))]
          \<and> e = None
          \<and> a (GetServiceAccount (o_namespace opts)
                 (spec_ServiceAccountName (o_workspaceSpec opts))) \<noteq> None)"
    using assms sa_step(4) [of a opts e opts' t]
    by (cases "o_disableCreateServiceAccount opts") (auto simp: trace_defs)
  show "e \<noteq> None \<longrightarrow> created t = []"
    using assms sa_step(5) [of a opts e opts' t]
    by (cases "o_disableCreateServiceAccount opts") (auto simp: trace_defs)
qed

lemma secret_stage:
  assumes "(if \<not> o_disableCreateSecret opts
            then createSecretIfMissing a opts else (None, opts, [])) = (e, opts', t)"
  shows "submitted_storage_classes t = []" and "deleted t = []"
    and "opts' = (if created t = [] then opts else opts\<lparr>o_createdSecret := True\<rparr>)"
    and "created t = [] \<or>
         (created t = [(SecretKind, o_namespace opts, spec_SecretName (o_workspaceSpec opts))]
          \<and> e = None
          \<and> a (GetSecret (o_namespace opts) (spec_SecretName (o_workspaceSpec opts))) \<noteq> None)"
    and "e \<noteq> None \<longrightarrow> created t = []"
proof -
  show "submitted_storage_classes t = []"
    using assms secret_step(1) [of a opts e opts' t]
    by (cases "o_disableCreateSecret opts") (auto simp: trace_defs)
  show "deleted t = []"
    using assms secret_step(2) [of a opts e opts' t]
    by (cases "o_disableCreateSecret opts") (auto simp: trace_defs)
  show "opts' = (if created t = [] then opts else opts\<lparr>o_createdSecret := True\<rparr>)"
    using assms secret_step(3) [of a opts e opts' t]
    by (cases "o_disableCreateSecret opts") (auto simp: trace_defs)
  show "created t = [] \<or>
         (created t = [(SecretKind, o_namespace opts, spec_SecretName (o_workspaceSpec opts))]
          \<and> e = None
          \<and> a (GetSecret (o_namespace opts) (spec_SecretName (o_workspaceSpec opts))) \<noteq> None)"
    using assms secret_step(4) [of a opts e opts' t]
    by (cases "o_disableCreateSecret opts") (auto simp: trace_defs)
  show "e \<noteq> None \<longrightarrow> created t = []"
    using assms secret_step(5) [of a opts e opts' t]
    by (cases "o_disableCreateSecret opts") (auto simp: trace_defs)
qed

lemma trace_append:
  "created (s @ t) = created s @ created t"
  "deleted (s @ t) = deleted s @ deleted t"
  "submitted_storage_classes (s @ t) = submitted_storage_classes s @ submitted_storage_classes t"
  by (simp_all add: trace_defs)

lemma run_trace:
  assumes run: "run w opts = (e, opts', t)"
    and fresh: "\<not> o_createdWorkspace opts" "\<not> o_createdSecret opts"
      "\<not> o_createdServiceAccount opts"
  shows "run_result w opts e opts' t"
proof -
  obtain e1 o1 t1 where s1:
    "(if \<not> o_disableCreateServiceAccount opts
      then createServiceAccountIfMissing (cluster_api w) opts else (None, opts, [])) = (e1, o1, t1)"
    using prod_cases3 by blast
  note f1 = sa_stage [OF s1]
  obtain e2 o2 t2 where s2:
    "(if \<not> o_disableCreateSecret o1
      then createSecretIfMissing (cluster_api w) o1 else (None, o1, [])) = (e2, o2, t2)"
    using prod_cases3 by blast
  note f2 = secret_stage [OF s2]
  obtain e3 t3 where s3: "createWorkspace (cluster_api w) o2 = (e3, t3)"
    by (cases "createWorkspace (cluster_api w) o2")
  note f3 = workspace_step [OF s3]
  show ?thesis
  proof (cases e1)
    case (Some x)
    then have "e = e1" "opts' = o1" "t = t1" using run s1 by (simp_all add: run_def)
    then show ?thesis using f1 fresh Some by (auto simp: run_result_def)
  next
    case n1: None
    show ?thesis
    proof (cases e2)
      case (Some x)
      then have "e = e2" "opts' = o2" "t = t1 @ t2"
        using run s1 s2 n1 by (simp_all add: run_def)
      then show ?thesis using f1 f2 fresh Some
        by (auto simp: run_result_def trace_append)
    next
      case n2: None
      show ?thesis
      proof (cases e3)
        case (Some x)
        then have "e = e3" "opts' = o2" "t = t1 @ t2 @ t3"
          using run s1 s2 s3 n1 n2 by (simp_all add: run_def)
        then show ?thesis using f1 f2 f3 fresh Some
          by (auto simp: run_result_def trace_append)
      next
        case n3: None
        then have "e = wait_and_stream w" "opts' = o2\<lparr>o_createdWorkspace := True\<rparr>"
          "t = t1 @ t2 @ t3"
          using run s1 s2 s3 n1 n2 by (simp_all add: run_def)
        then show ?thesis using f1 f2 f3 fresh n3
          by (auto simp: run_result_def trace_append)
      qed
    qed
  qed
qed


lemma cleanup_trace:
  "created (cleanup a opts) = []"
  "submitted_storage_classes (cleanup a opts) = []"
  "deleted (cleanup a opts) =
     (if o_createdWorkspace opts
      then [(WorkspaceKind, o_namespace opts, o_workspace opts)] else [])
     @ (if o_createdSecret opts
        then [(SecretKind, o_namespace opts, spec_SecretName (o_workspaceSpec opts))] else [])
     @ (if o_createdServiceAccount opts
        then [(ServiceAccountKind, o_namespace opts,
               spec_ServiceAccountName (o_workspaceSpec opts))] else [])"
  by (simp_all add: cleanup_def trace_defs)

text \<open>The options \<open>run\<close> starts from.\<close>

lemma start_options:
  "\<not> o_createdWorkspace (default_storage_class iv ((bind_flags iv)\<lparr>o_workspace := arg\<rparr>))"
  "\<not> o_createdSecret (default_storage_class iv ((bind_flags iv)\<lparr>o_workspace := arg\<rparr>))"
  "\<not> o_createdServiceAccount (default_storage_class iv ((bind_flags iv)\<lparr>o_workspace := arg\<rparr>))"
  "o_disableResourceCleanup (default_storage_class iv ((bind_flags iv)\<lparr>o_workspace := arg\<rparr>))
     = inv_disableResourceCleanup iv"
  "cache_StorageClass (spec_Cache (o_workspaceSpec
       (default_storage_class iv ((bind_flags iv)\<lparr>o_workspace := arg\<rparr>))))
     = inv_flags iv ''storage-class''"
  by (simp_all add: default_storage_class_def bind_flags_def IsFlagPassed_def flag_String_def
      split: option.splits)

lemma RunE_early:
  assumes "(\<forall>arg. inv_args iv \<noteq> [arg]) \<or> env_New w \<noteq> None \<or> factory_Create w \<noteq> None"
  shows "res_calls (RunE w iv) = []" and "res_err (RunE w iv) \<noteq> None"
  using assms by (auto simp: RunE_def Let_def split: list.splits option.splits)

lemma RunE_run:
  assumes "inv_args iv = [arg]" and "env_New w = None" and "factory_Create w = None"
    and "run w (default_storage_class iv ((bind_flags iv)\<lparr>o_workspace := arg\<rparr>)) = (e, opts', t)"
  shows "res_err (RunE w iv) = e"
    and "res_calls (RunE w iv) =
           (if e \<noteq> None \<and> \<not> o_disableResourceCleanup opts'
            then t @ cleanup (cluster_api w) opts' else t)"
  using assms by (cases e; simp add: RunE_def Let_def)+

lemma RunE_cases:
  obtains (early) "res_calls (RunE w iv) = []" "res_err (RunE w iv) \<noteq> None"
  | (ran) arg e opts' t where "inv_args iv = [arg]" "env_New w = None" "factory_Create w = None"
      "run w (default_storage_class iv ((bind_flags iv)\<lparr>o_workspace := arg\<rparr>)) = (e, opts', t)"
      "run_result w (default_storage_class iv ((bind_flags iv)\<lparr>o_workspace := arg\<rparr>)) e opts' t"
      "res_err (RunE w iv) = e"
      "res_calls (RunE w iv) =
           (if e \<noteq> None \<and> \<not> inv_disableResourceCleanup iv
            then t @ cleanup (cluster_api w) opts' else t)"
proof (cases "(\<forall>arg. inv_args iv \<noteq> [arg]) \<or> env_New w \<noteq> None \<or> factory_Create w \<noteq> None")
  case True
  then show ?thesis using RunE_early [of iv w] early by blast
next
  case False
  then obtain arg where a: "inv_args iv = [arg]" and n: "env_New w = None"
    and f: "factory_Create w = None" by blast
  obtain e opts' t where
    r: "run w (default_storage_class iv ((bind_flags iv)\<lparr>o_workspace := arg\<rparr>)) = (e, opts', t)"
    using prod_cases3 by blast
  have rr: "run_result w (default_storage_class iv ((bind_flags iv)\<lparr>o_workspace := arg\<rparr>)) e opts' t"
    using run_trace [OF r] start_options(1,2,3) by blast
  then have d: "o_disableResourceCleanup opts' = inv_disableResourceCleanup iv"
    using start_options(4) [of iv arg] by (simp add: run_result_def)
  show ?thesis
    using ran [OF a n f r rr] RunE_run [OF a n f r] d by simp
qed

lemma sa_step_cong:
  assumes "\<forall>c. \<not> is_delete c \<longrightarrow> a' c = a c"
  shows "createServiceAccountIfMissing a' opts = createServiceAccountIfMissing a opts"
proof -
  have g: "a' (GetServiceAccount ns n) = a (GetServiceAccount ns n)" for ns n
    using assms by simp
  have c: "a' (CreateServiceAccount ns n) = a (CreateServiceAccount ns n)" for ns n
    using assms by simp
  show ?thesis unfolding createServiceAccountIfMissing_def Let_def g c by (rule refl)
qed

lemma secret_step_cong:
  assumes "\<forall>c. \<not> is_delete c \<longrightarrow> a' c = a c"
  shows "createSecretIfMissing a' opts = createSecretIfMissing a opts"
proof -
  have g: "a' (GetSecret ns n) = a (GetSecret ns n)" for ns n
    using assms by simp
  have c: "a' (CreateSecret ns n) = a (CreateSecret ns n)" for ns n
    using assms by simp
  show ?thesis unfolding createSecretIfMissing_def Let_def g c by (rule refl)
qed

lemma workspace_step_cong:
  assumes "\<forall>c. \<not> is_delete c \<longrightarrow> a' c = a c"
  shows "createWorkspace a' opts = createWorkspace a opts"
proof -
  have c: "a' (CreateWorkspace ns n sp) = a (CreateWorkspace ns n sp)" for ns n sp
    using assms by simp
  show ?thesis unfolding createWorkspace_def Let_def c by (rule refl)
qed

lemma run_cong:
  assumes "\<forall>c. \<not> is_delete c \<longrightarrow> cluster_api w' c = cluster_api w c"
    and "wait_and_stream w' = wait_and_stream w"
  shows "run w' opts = run w opts"
  unfolding run_def assms(2) sa_step_cong [OF assms(1)] secret_step_cong [OF assms(1)]
    workspace_step_cong [OF assms(1)]
  by (rule refl)

lemma RunE_err_cong:
  assumes "\<forall>c. \<not> is_delete c \<longrightarrow> cluster_api w' c = cluster_api w c"
    and "env_New w' = env_New w" and "factory_Create w' = factory_Create w"
    and "wait_and_stream w' = wait_and_stream w"
  shows "res_err (RunE w' iv) = res_err (RunE w iv)"
  using assms(2,3) run_cong [OF assms(1,4)]
  by (simp add: RunE_def Let_def split: list.splits option.splits prod.splits)


lemmas world_defs = pod_timeout_world_def failing_delete_world_def existing_credentials_world_def
  empty_cluster_api_def plain_invocation_def empty_class_invocation_def
  named_class_invocation_def defaultServiceAccountName_def defaultSecretName_def
  defaultCacheSize_def

text \<open>
  C6. A workspace whose cache size is unset gets a claim requesting exactly \<open>1Gi\<close> of
  storage. In every invocation of the workspace-creation command where the
  \<open>storage-class\<close> flag is not passed, every workspace spec submitted has a nil storage
  class; where the flag is passed with a value, empty or not, the spec submitted
  carries exactly that value, so unset, explicit-empty and named stay distinct.
\<close>

theorem cache_defaults:
  "(Size (Cache (Spec cr)) = []
      \<longrightarrow> map_of (pvc_Requests (newPVCForCR cr)) ResourceStorage = Some ''1Gi'')
   \<and> (\<not> IsFlagPassed (inv_flags iv) ''storage-class''
      \<longrightarrow> (\<forall>sc \<in> set (submitted_storage_classes (res_calls (RunE w iv))). sc = None))
   \<and> (inv_flags iv ''storage-class'' = Some v
      \<longrightarrow> (\<forall>sc \<in> set (submitted_storage_classes (res_calls (RunE w iv))). sc = Some v))"
proof -
  have pvc: "map_of (pvc_Requests (newPVCForCR cr)) ResourceStorage = Some ''1Gi''"
    by (simp add: newPVCForCR_def)
  have sub: "sc = inv_flags iv ''storage-class''"
    if "sc \<in> set (submitted_storage_classes (res_calls (RunE w iv)))" for sc
  proof (cases rule: RunE_cases [where w = w and iv = iv])
    case early
    with that show ?thesis by (simp add: submitted_storage_classes_def List.map_filter_def)
  next
    case (ran arg e opts' t)
    have "set (submitted_storage_classes (res_calls (RunE w iv)))
            = set (submitted_storage_classes t)"
      using ran(7) by (simp add: trace_append cleanup_trace)
    then show ?thesis
      using that ran(5) start_options(5) [of iv arg] by (auto simp: run_result_def)
  qed
  show ?thesis using pvc sub by (auto simp: IsFlagPassed_def)
qed

theorem cache_defaults_witness:
  "map_of (pvc_Requests (newPVCForCR (workspace_1 []))) ResourceStorage = Some ''1Gi''
   \<and> submitted_storage_classes (res_calls (RunE pod_timeout_world plain_invocation)) = [None]
   \<and> submitted_storage_classes (res_calls (RunE pod_timeout_world empty_class_invocation))
       = [Some []]
   \<and> submitted_storage_classes (res_calls (RunE pod_timeout_world named_class_invocation))
       = [Some ''fast'']"
proof -
  have a: "submitted_storage_classes (res_calls (RunE pod_timeout_world plain_invocation)) = [None]"
    by (simp add: new_defs world_defs trace_defs)
  have b: "submitted_storage_classes (res_calls (RunE pod_timeout_world empty_class_invocation))
       = [Some []]"
    by (simp add: new_defs world_defs trace_defs)
  have c: "submitted_storage_classes (res_calls (RunE pod_timeout_world named_class_invocation))
       = [Some ''fast'']"
    by (simp add: new_defs world_defs trace_defs)
  have d: "Size (Cache (Spec (workspace_1 []))) = []" by (simp add: workspace_1_def)
  have e: "\<not> IsFlagPassed (inv_flags plain_invocation) ''storage-class''"
    by (simp add: IsFlagPassed_def plain_invocation_def)
  show ?thesis
    using cache_defaults [of "workspace_1 []" plain_invocation pod_timeout_world "[]"] a b c d e
    by simp
qed

text \<open>
  C9. For every invocation of the workspace-creation command: when it fails and cleanup
  is not disabled, the resources it asks to delete are exactly the resources it
  created, in reverse order of creation; when it succeeds or cleanup is disabled it
  deletes nothing; deletes go workspace, secret, service account; a service account or
  secret that was found to exist, or a workspace whose create failed, is never
  deleted; the error returned is the error of the run, and it does not depend on what
  the cluster answers to the deletes.
\<close>

theorem cleanup_on_failure:
  "(res_err (RunE w iv) \<noteq> None \<and> \<not> inv_disableResourceCleanup iv
      \<longrightarrow> deleted (res_calls (RunE w iv)) = rev (created (res_calls (RunE w iv))))
   \<and> (res_err (RunE w iv) = None \<or> inv_disableResourceCleanup iv
      \<longrightarrow> deleted (res_calls (RunE w iv)) = [])
   \<and> subseq (map fst (deleted (res_calls (RunE w iv))))
        [WorkspaceKind, SecretKind, ServiceAccountKind]
   \<and> (cluster_api w (GetServiceAccount ns n) = None
      \<longrightarrow> (ServiceAccountKind, ns, n) \<notin> set (deleted (res_calls (RunE w iv))))
   \<and> (cluster_api w (GetSecret ns n) = None
      \<longrightarrow> (SecretKind, ns, n) \<notin> set (deleted (res_calls (RunE w iv))))
   \<and> ((\<forall>sp. cluster_api w (CreateWorkspace ns n sp) \<noteq> None)
      \<longrightarrow> (WorkspaceKind, ns, n) \<notin> set (deleted (res_calls (RunE w iv))))
   \<and> (inv_args iv = [arg] \<and> env_New w = None \<and> factory_Create w = None
      \<longrightarrow> res_err (RunE w iv)
          = fst (run w (default_storage_class iv ((bind_flags iv)\<lparr>o_workspace := arg\<rparr>))))
   \<and> ((\<forall>c. \<not> is_delete c \<longrightarrow> cluster_api w' c = cluster_api w c)
       \<and> env_New w' = env_New w \<and> factory_Create w' = factory_Create w
       \<and> wait_and_stream w' = wait_and_stream w
      \<longrightarrow> res_err (RunE w' iv) = res_err (RunE w iv))"
proof -
  have main:
    "(res_err (RunE w iv) \<noteq> None \<and> \<not> inv_disableResourceCleanup iv
        \<longrightarrow> deleted (res_calls (RunE w iv)) = rev (created (res_calls (RunE w iv))))
     \<and> (res_err (RunE w iv) = None \<or> inv_disableResourceCleanup iv
        \<longrightarrow> deleted (res_calls (RunE w iv)) = [])
     \<and> subseq (map fst (deleted (res_calls (RunE w iv))))
          [WorkspaceKind, SecretKind, ServiceAccountKind]
     \<and> (cluster_api w (GetServiceAccount ns n) = None
        \<longrightarrow> (ServiceAccountKind, ns, n) \<notin> set (deleted (res_calls (RunE w iv))))
     \<and> (cluster_api w (GetSecret ns n) = None
        \<longrightarrow> (SecretKind, ns, n) \<notin> set (deleted (res_calls (RunE w iv))))
     \<and> ((\<forall>sp. cluster_api w (CreateWorkspace ns n sp) \<noteq> None)
        \<longrightarrow> (WorkspaceKind, ns, n) \<notin> set (deleted (res_calls (RunE w iv))))"
  proof (cases rule: RunE_cases [where w = w and iv = iv])
    case early
    then show ?thesis by (simp add: trace_defs)
  next
    case (ran a e opts' t)
    let ?o = "default_storage_class iv ((bind_flags iv)\<lparr>o_workspace := a\<rparr>)"
    have dt: "deleted t = []" and ct: "created t =
           (if o_createdServiceAccount opts'
            then [(ServiceAccountKind, o_namespace ?o,
                   spec_ServiceAccountName (o_workspaceSpec ?o))] else [])
           @ (if o_createdSecret opts'
              then [(SecretKind, o_namespace ?o, spec_SecretName (o_workspaceSpec ?o))] else [])
           @ (if o_createdWorkspace opts'
              then [(WorkspaceKind, o_namespace ?o, o_workspace ?o)] else [])"
      and fr: "o_namespace opts' = o_namespace ?o" "o_workspace opts' = o_workspace ?o"
        "o_workspaceSpec opts' = o_workspaceSpec ?o"
      and sa: "o_createdServiceAccount opts' \<longrightarrow>
           cluster_api w (GetServiceAccount (o_namespace ?o)
              (spec_ServiceAccountName (o_workspaceSpec ?o))) \<noteq> None"
      and se: "o_createdSecret opts' \<longrightarrow>
           cluster_api w (GetSecret (o_namespace ?o)
              (spec_SecretName (o_workspaceSpec ?o))) \<noteq> None"
      and wo: "o_createdWorkspace opts' \<longrightarrow>
           cluster_api w (CreateWorkspace (o_namespace ?o) (o_workspace ?o)
              (o_workspaceSpec ?o)) = None"
      using ran(5) by (simp_all add: run_result_def)
    have dc: "deleted (cleanup (cluster_api w) opts') = rev (created t)"
      using ct fr by (simp add: cleanup_trace)
    show ?thesis
    proof (cases "e \<noteq> None \<and> \<not> inv_disableResourceCleanup iv")
      case True
      then have calls: "res_calls (RunE w iv) = t @ cleanup (cluster_api w) opts'"
        using ran(7) by simp
      have d: "deleted (res_calls (RunE w iv)) = rev (created t)"
        using calls dt dc by (simp add: trace_append)
      have c: "created (res_calls (RunE w iv)) = created t"
        using calls by (simp add: trace_append cleanup_trace)
      have 1: "deleted (res_calls (RunE w iv)) = rev (created (res_calls (RunE w iv)))"
        using d c by simp
      have 3: "subseq (map fst (deleted (res_calls (RunE w iv))))
          [WorkspaceKind, SecretKind, ServiceAccountKind]"
        unfolding d ct by simp
      have 4: "cluster_api w (GetServiceAccount ns n) = None
        \<longrightarrow> (ServiceAccountKind, ns, n) \<notin> set (deleted (res_calls (RunE w iv)))"
        unfolding d ct using sa by auto
      have 5: "cluster_api w (GetSecret ns n) = None
        \<longrightarrow> (SecretKind, ns, n) \<notin> set (deleted (res_calls (RunE w iv)))"
        unfolding d ct using se by auto
      have 6: "(\<forall>sp. cluster_api w (CreateWorkspace ns n sp) \<noteq> None)
        \<longrightarrow> (WorkspaceKind, ns, n) \<notin> set (deleted (res_calls (RunE w iv)))"
      proof (intro impI notI)
        assume all: "\<forall>sp. cluster_api w (CreateWorkspace ns n sp) \<noteq> None"
          and mem: "(WorkspaceKind, ns, n) \<in> set (deleted (res_calls (RunE w iv)))"
        from mem have "o_createdWorkspace opts'" and "ns = o_namespace ?o"
          and "n = o_workspace ?o"
          unfolding d ct by (auto split: if_splits)
        with wo have "cluster_api w (CreateWorkspace ns n (o_workspaceSpec ?o)) = None"
          by simp
        with all show False by blast
      qed
      have 2: "res_err (RunE w iv) = None \<or> inv_disableResourceCleanup iv
        \<longrightarrow> deleted (res_calls (RunE w iv)) = []"
        using True ran(6) by auto
      show ?thesis using 1 2 3 4 5 6 by blast
    next
      case False
      then have calls: "res_calls (RunE w iv) = t" using ran(7) by auto
      have d: "deleted (res_calls (RunE w iv)) = []" using calls dt by simp
      show ?thesis using False ran(6) d by auto
    qed
  qed
  have orig: "res_err (RunE w iv)
          = fst (run w (default_storage_class iv ((bind_flags iv)\<lparr>o_workspace := arg\<rparr>)))"
    if "inv_args iv = [arg] \<and> env_New w = None \<and> factory_Create w = None"
    using that
      RunE_run(1) [of iv arg w
        "fst (run w (default_storage_class iv ((bind_flags iv)\<lparr>o_workspace := arg\<rparr>)))"
        "fst (snd (run w (default_storage_class iv ((bind_flags iv)\<lparr>o_workspace := arg\<rparr>))))"
        "snd (snd (run w (default_storage_class iv ((bind_flags iv)\<lparr>o_workspace := arg\<rparr>))))"]
    by simp
  have indep: "res_err (RunE w' iv) = res_err (RunE w iv)"
    if "(\<forall>c. \<not> is_delete c \<longrightarrow> cluster_api w' c = cluster_api w c)
       \<and> env_New w' = env_New w \<and> factory_Create w' = factory_Create w
       \<and> wait_and_stream w' = wait_and_stream w"
    using that RunE_err_cong [of w' w iv] by blast
  show ?thesis using main orig indep by blast
qed

theorem cleanup_on_failure_witness:
  "res_err (RunE pod_timeout_world plain_invocation) = Some errPodTimeout
   \<and> created (res_calls (RunE pod_timeout_world plain_invocation))
     = [(ServiceAccountKind, ''default'', ''etok''), (SecretKind, ''default'', ''etok''),
        (WorkspaceKind, ''default'', ''dev'')]
   \<and> deleted (res_calls (RunE pod_timeout_world plain_invocation))
     = [(WorkspaceKind, ''default'', ''dev''), (SecretKind, ''default'', ''etok''),
        (ServiceAccountKind, ''default'', ''etok'')]
   \<and> res_err (RunE failing_delete_world plain_invocation) = Some errPodTimeout
   \<and> deleted (res_calls (RunE existing_credentials_world plain_invocation))
     = [(WorkspaceKind, ''default'', ''dev'')]"
proof -
  have e: "res_err (RunE pod_timeout_world plain_invocation) = Some errPodTimeout"
    by (simp add: new_defs world_defs)
  have c: "created (res_calls (RunE pod_timeout_world plain_invocation))
     = [(ServiceAccountKind, ''default'', ''etok''), (SecretKind, ''default'', ''etok''),
        (WorkspaceKind, ''default'', ''dev'')]"
    by (simp add: new_defs world_defs trace_defs)
  have n: "\<not> inv_disableResourceCleanup plain_invocation" by (simp add: plain_invocation_def)
  have agree: "(\<forall>c. \<not> is_delete c \<longrightarrow>
        cluster_api failing_delete_world c = cluster_api pod_timeout_world c)
       \<and> env_New failing_delete_world = env_New pod_timeout_world
       \<and> factory_Create failing_delete_world = factory_Create pod_timeout_world
       \<and> wait_and_stream failing_delete_world = wait_and_stream pod_timeout_world"
    by (simp add: world_defs)
  have x: "deleted (res_calls (RunE existing_credentials_world plain_invocation))
     = [(WorkspaceKind, ''default'', ''dev'')]"
    by (simp add: new_defs world_defs trace_defs)
  show ?thesis
    using cleanup_on_failure [of pod_timeout_world plain_invocation "''default''" "''etok''"
        "''dev''" failing_delete_world] e c n agree x
    by simp
qed


lemma GetCondition_SetCondition:
  "map_option cond_Status (GetCondition (cond_Type c) (SetCondition c conds)) = Some (cond_Status c)"
  by (induction conds) auto

lemma GetCondition_SetCondition_other:
  "t \<noteq> cond_Type c \<Longrightarrow> GetCondition t (SetCondition c conds) = GetCondition t conds"
  by (induction conds) auto

text \<open>
  C5 (on the model of the specification's health step). After the health step the
  Healthy condition is false exactly when a secret or a service account is referenced
  and does not exist, and true otherwise; a workspace referencing neither gets
  Healthy true.
\<close>

theorem healthy_condition:
  "(healthy_status (reconcile_health secretName serviceAccountName secrets serviceAccounts now conds)
      = Some ConditionFalse
    \<longleftrightarrow> (secretName \<noteq> [] \<and> secretName \<notin> set secrets)
        \<or> (serviceAccountName \<noteq> [] \<and> serviceAccountName \<notin> set serviceAccounts))
   \<and> (healthy_status (reconcile_health secretName serviceAccountName secrets serviceAccounts now conds)
      = Some ConditionTrue
    \<longleftrightarrow> \<not> ((secretName \<noteq> [] \<and> secretName \<notin> set secrets)
        \<or> (serviceAccountName \<noteq> [] \<and> serviceAccountName \<notin> set serviceAccounts)))
   \<and> (secretName = [] \<and> serviceAccountName = []
    \<longrightarrow> healthy_status
          (reconcile_health secretName serviceAccountName secrets serviceAccounts now conds)
        = Some ConditionTrue)"
proof -
  let ?c = "\<lparr> cond_Type = ConditionHealthy,
         cond_Status =
           (if missing_reference secretName secrets
               \<or> missing_reference serviceAccountName serviceAccounts
            then ConditionFalse else ConditionTrue),
         cond_LastTransitionTime = now \<rparr>"
  have "healthy_status (reconcile_health secretName serviceAccountName secrets serviceAccounts now conds)
          = Some (cond_Status ?c)"
    using GetCondition_SetCondition [of ?c conds]
    by (simp add: healthy_status_def reconcile_health_def)
  then show ?thesis by (auto simp: missing_reference_def)
qed

theorem healthy_condition_witness:
  "healthy_status (reconcile_health ''stok'' [] [] [] 7 []) = Some ConditionFalse
   \<and> healthy_status (reconcile_health [] ''stok'' [] [] 7 []) = Some ConditionFalse
   \<and> healthy_status (reconcile_health [] [] [] [] 7 []) = Some ConditionTrue
   \<and> healthy_status (reconcile_health ''stok'' [] [''stok''] [] 7
        [\<lparr> cond_Type = ''Healthy'', cond_Status = ConditionFalse, cond_LastTransitionTime = 3 \<rparr>])
      = Some ConditionTrue"
  using healthy_condition [of "''stok''" "[]" "[]" "[]" 7 "[]"]
    healthy_condition [of "[]" "''stok''" "[]" "[]" 7 "[]"]
    healthy_condition [of "[]" "[]" "[]" "[]" 7 "[]"]
    healthy_condition [of "''stok''" "[]" "[''stok'']" "[]" 7
        "[\<lparr> cond_Type = ''Healthy'', cond_Status = ConditionFalse, cond_LastTransitionTime = 3 \<rparr>]"]
  by simp

lemma sorted_keys_props:
  "sorted (sorted_keys cfg)" "distinct (sorted_keys cfg)" "set (sorted_keys cfg) = fst ` set cfg"
  by (simp_all add: sorted_keys_def)

lemma backend_ini_lines:
  "backend_ini cfg = concat (map (\<lambda>k. ini_line k (the (map_of cfg k))) (sorted_keys cfg))"
proof -
  have "(case map_of cfg k of Some v \<Rightarrow> ini_line k v | None \<Rightarrow> []) = ini_line k (the (map_of cfg k))"
    if "k \<in> set (sorted_keys cfg)" for k
  proof -
    from that have "k \<in> fst ` set cfg" by (simp add: sorted_keys_props)
    then obtain v where "map_of cfg k = Some v"
      by (metis domIff dom_map_of_conv_image_fst not_Some_eq)
    then show ?thesis by simp
  qed
  then show ?thesis by (simp add: backend_ini_def cong: map_cong)
qed

text \<open>
  C7 (on the model of the specification's backend rendering). \<open>backend.ini\<close> is the
  concatenation of one line per setting, key, tab, equals sign, quoted value, over the
  keys in ascending order, each key once; it is empty when there are no settings;
  \<open>backend.tf\<close> is the terraform block naming the backend type. For \<open>gcs\<close> with bucket
  and prefix the two lines come out bucket first; for \<open>local\<close> without settings
  \<open>backend.ini\<close> is empty.
\<close>

theorem backend_rendering:
  "backend_ini cfg = concat (map (\<lambda>k. k @ [TAB] @ ''= '' @ [DQ] @ the (map_of cfg k) @ [DQ] @ [NL])
                               (sorted_keys cfg))
   \<and> sorted (sorted_keys cfg) \<and> distinct (sorted_keys cfg)
   \<and> set (sorted_keys cfg) = fst ` set cfg
   \<and> backend_ini [] = []
   \<and> backend_tf t = ''terraform {'' @ [NL] @ ''  backend '' @ [DQ] @ t @ [DQ] @ '' {}'' @ [NL]
                      @ ''}'' @ [NL]
   \<and> backend_ini [(''prefix'', ''dev''), (''bucket'', ''workspace-1-state'')]
     = ''bucket'' @ [TAB] @ ''= '' @ [DQ] @ ''workspace-1-state'' @ [DQ] @ [NL]
       @ ''prefix'' @ [TAB] @ ''= '' @ [DQ] @ ''dev'' @ [DQ] @ [NL]"
proof -
  have ex: "backend_ini [(''prefix'', ''dev''), (''bucket'', ''workspace-1-state'')]
     = ''bucket'' @ [TAB] @ ''= '' @ [DQ] @ ''workspace-1-state'' @ [DQ] @ [NL]
       @ ''prefix'' @ [TAB] @ ''= '' @ [DQ] @ ''dev'' @ [DQ] @ [NL]"
    by (simp add: backend_ini_def sorted_keys_def ini_line_def less_eq_char_def)
  have emp: "backend_ini [] = []" by (simp add: backend_ini_def sorted_keys_def)
  show ?thesis
    using ex emp backend_ini_lines [of cfg] sorted_keys_props [of cfg]
    by (simp add: ini_line_def backend_tf_def)
qed


theorem backend_rendering_witness:
  "backend_tf ''gcs''
     = ''terraform {'' @ [CHR 0x0A] @ ''  backend '' @ [CHR 0x22] @ ''gcs'' @ [CHR 0x22]
       @ '' {}'' @ [CHR 0x0A] @ ''}'' @ [CHR 0x0A]
   \<and> backend_ini [(''prefix'', ''dev''), (''bucket'', ''workspace-1-state'')]
     = ''bucket'' @ [CHR 0x09] @ ''= '' @ [CHR 0x22] @ ''workspace-1-state'' @ [CHR 0x22, CHR 0x0A]
       @ ''prefix'' @ [CHR 0x09] @ ''= '' @ [CHR 0x22] @ ''dev'' @ [CHR 0x22, CHR 0x0A]
   \<and> backend_tf ''local''
     = ''terraform {'' @ [CHR 0x0A] @ ''  backend '' @ [CHR 0x22] @ ''local'' @ [CHR 0x22]
       @ '' {}'' @ [CHR 0x0A] @ ''}'' @ [CHR 0x0A]
   \<and> backend_ini [] = []"
  using backend_rendering [of "[]" "''gcs''"] backend_rendering [of "[]" "''local''"]
  by (simp add: TAB_def NL_def DQ_def)

end
